theory Spec2Isabelle
  imports Complex_Main
begin

section \<open>Python values, errors and strings\<close>

text \<open>
  The dashboard in \<^verbatim>\<open>app.py\<close> is glue code around a telemetry provider, a plotting
  library and a UI framework. The embedding keeps the functions of \<^verbatim>\<open>app.py\<close> and
  takes what the provider answers (lap tables, telemetry frames, the outcome of a call
  that may raise) as arguments.

  An exception is a value: a function that may raise returns \<open>error + 'a\<close>, with
  \<open>Inl\<close> for the exception.
\<close>

datatype error = KeyError | ValueError | TypeError | IndexError | ProviderError

definition ebind :: "error + 'a \<Rightarrow> ('a \<Rightarrow> error + 'b) \<Rightarrow> error + 'b" where
  "ebind m f = (case m of Inl e \<Rightarrow> Inl e | Inr x \<Rightarrow> f x)"

text \<open>
  Scalars that reach \<^verbatim>\<open>str(...)\<close>, a truth test or \<^verbatim>\<open>pd.notna\<close>: the team name of
  a lap and the values of a driver-info dictionary. \<open>PyNone\<close> stands for a missing value.
\<close>

datatype pyval = PyNone | PyBool bool | PyInt int | PyStr string

subsection \<open>\<^verbatim>\<open>str(int)\<close> and \<^verbatim>\<open>int(str)\<close>\<close>

definition digit_chr :: "nat \<Rightarrow> char" where
  "digit_chr d = char_of (48 + d)"

definition is_digit :: "char \<Rightarrow> bool" where
  "is_digit c = (48 \<le> (of_char c :: nat) \<and> (of_char c :: nat) \<le> 57)"

definition digit_val :: "char \<Rightarrow> nat" where
  "digit_val c = of_char c - 48"

text \<open>Decimal digits, least significant first, pushed on the front of what is there.\<close>

function dec_digits :: "nat \<Rightarrow> string \<Rightarrow> string" where
  "dec_digits n acc =
     (if n < 10 then digit_chr n # acc
      else dec_digits (n div 10) (digit_chr (n mod 10) # acc))"
  by pat_completeness auto
termination
  by (relation "measure (\<lambda>(n, acc). n)") auto

declare dec_digits.simps [simp del]

definition py_str_int :: "int \<Rightarrow> string" where
  "py_str_int i =
     (if i < 0 then CHR ''-'' # dec_digits (nat (- i)) [] else dec_digits (nat i) [])"

text \<open>
  \<^verbatim>\<open>int(s)\<close> in base 10: white space around the literal is dropped, one sign is
  allowed, then digits, where single underscores may stand between two digits.
  Anything else is a \<^verbatim>\<open>ValueError\<close>. (Strings are byte lists here; the white space
  and digits of ASCII are the ones recognised.)
\<close>

definition is_space :: "char \<Rightarrow> bool" where
  "is_space c = (let k = (of_char c :: nat) in (9 \<le> k \<and> k \<le> 13) \<or> (28 \<le> k \<and> k \<le> 32))"

definition py_strip :: "string \<Rightarrow> string" where
  "py_strip s = rev (dropWhile is_space (rev (dropWhile is_space s)))"

fun parse_digits :: "bool \<Rightarrow> nat \<Rightarrow> string \<Rightarrow> nat option" where
  "parse_digits prev acc [] = (if prev then Some acc else None)"
| "parse_digits prev acc (c # cs) =
     (if is_digit c then parse_digits True (acc * 10 + digit_val c) cs
      else if c = CHR ''_'' \<and> prev \<and> cs \<noteq> [] \<and> is_digit (hd cs)
           then parse_digits False acc cs
      else None)"

definition py_int :: "string \<Rightarrow> error + int" where
  "py_int s =
     (case py_strip s of
        [] \<Rightarrow> Inl ValueError
      | c # cs \<Rightarrow>
          if c = CHR ''-'' then
            (case parse_digits False 0 cs of None \<Rightarrow> Inl ValueError | Some n \<Rightarrow> Inr (- int n))
          else if c = CHR ''+'' then
            (case parse_digits False 0 cs of None \<Rightarrow> Inl ValueError | Some n \<Rightarrow> Inr (int n))
          else
            (case parse_digits False 0 (c # cs) of None \<Rightarrow> Inl ValueError | Some n \<Rightarrow> Inr (int n)))"

text \<open>\<^verbatim>\<open>str(v)\<close> and the truth value of a scalar.\<close>

fun py_str :: "pyval \<Rightarrow> string" where
  "py_str PyNone = ''None''"
| "py_str (PyBool b) = (if b then ''True'' else ''False'')"
| "py_str (PyInt i) = py_str_int i"
| "py_str (PyStr s) = s"

fun truthy :: "pyval \<Rightarrow> bool" where
  "truthy PyNone = False"
| "truthy (PyBool b) = b"
| "truthy (PyInt i) = (i \<noteq> 0)"
| "truthy (PyStr s) = (s \<noteq> [])"

fun notna :: "pyval \<Rightarrow> bool" where
  "notna PyNone = False"
| "notna _ = True"

subsection \<open>\<^verbatim>\<open>str.split(sep)\<close>\<close>

text \<open>
  Splitting scans from the left and cuts at every occurrence of the separator; the
  result always has at least one token. An empty separator is a \<^verbatim>\<open>ValueError\<close>.
\<close>

function split_from :: "string \<Rightarrow> string \<Rightarrow> string \<Rightarrow> string list" where
  "split_from sp tok [] = [rev tok]"
| "split_from sp tok (c # cs) =
     (if sp \<noteq> [] \<and> take (length sp) (c # cs) = sp
      then rev tok # split_from sp [] (drop (length sp) (c # cs))
      else split_from sp (c # tok) cs)"
  by pat_completeness auto
termination
  by (relation "measure (\<lambda>(sp, tok, s). length s)") auto

definition py_split :: "string \<Rightarrow> string \<Rightarrow> error + string list" where
  "py_split s sp = (if sp = [] then Inl ValueError else Inr (split_from sp [] s))"

section \<open>Laps and lap labels\<close>

text \<open>
  The separator of a lap label: a space, the middle dot U+00B7 (the bytes
  C2 B7 in UTF-8) and a space.
\<close>

definition label_sep :: string where
  "label_sep = [CHR '' '', CHR 0xC2, CHR 0xB7, CHR '' '']"

text \<open>
  The number of a lap as a cell of the lap table holds it. The provider keeps the
  \<^verbatim>\<open>LapNumber\<close> column as 64-bit floats: \<open>LapFloat n\<close> is the float whose value is the
  whole number \<open>n\<close> (below \<open>10 ^ 16\<close> in size, where the text of a float writes every
  digit), \<open>LapNaN\<close> the missing number. \<open>LapInt n\<close> is the cell of an integer column.
\<close>

datatype lap_number = LapInt int | LapFloat int | LapNaN

text \<open>
  \<^verbatim>\<open>astype(str)\<close> on the number column: an integer is written in decimal, a float that
  is a whole number with a trailing \<^verbatim>\<open>.0\<close>, the missing float as \<^verbatim>\<open>nan\<close>.
\<close>

fun astype_str_number :: "lap_number \<Rightarrow> string" where
  "astype_str_number (LapInt n) = py_str_int n"
| "astype_str_number (LapFloat n) = py_str_int n @ ''.0''"
| "astype_str_number LapNaN = ''nan''"

text \<open>
  A row of the provider's lap table. \<open>LapTime\<close> is a duration, already in the text form
  that \<^verbatim>\<open>astype(str)\<close> gives it; \<open>None\<close> is the missing duration (\<^verbatim>\<open>NaT\<close>). \<open>Team\<close> is
  the team recorded on the lap.
\<close>

record lap =
  LapNumber :: lap_number
  LapTime :: "string option"
  Team :: pyval

text \<open>A lap table: the names of its columns and its rows.\<close>

record laps_frame =
  lcolumns :: "string list"
  lrows :: "lap list"

record labelled_laps = laps_frame +
  LapLabel :: "string list option"

text \<open>\<^verbatim>\<open>DataFrame.empty\<close>: one of the two axes has length 0.\<close>

definition laps_empty :: "'a laps_frame_scheme \<Rightarrow> bool" where
  "laps_empty f = (lrows f = [] \<or> lcolumns f = [])"

text \<open>
  The session is the provider's handle. The code asks it for the laps of a driver
  (\<^verbatim>\<open>session.laps.pick_driver(code)\<close>) and for a driver's details
  (\<^verbatim>\<open>session.get_driver(code)\<close>); either call may raise. The details are a
  dictionary or some other object of the provider that has fields.
\<close>

datatype driver_info =
    InfoDict "(string \<times> pyval) list"
  | InfoObject "(string \<times> pyval) list"

record session =
  pick_driver :: "string \<Rightarrow> error + laps_frame"
  get_driver :: "string \<Rightarrow> error + driver_info"

text \<open>
  \<^verbatim>\<open>astype(str)\<close> on the duration column writes the missing duration as \<^verbatim>\<open>"NaT"\<close>;
  the cells of the resulting text column are all present, and \<^verbatim>\<open>fillna("NaT")\<close>
  replaces a missing cell.
\<close>

definition astype_str_time :: "string option \<Rightarrow> string option" where
  "astype_str_time t = (case t of None \<Rightarrow> Some ''NaT'' | Some s \<Rightarrow> Some s)"

definition fillna :: "string \<Rightarrow> string option \<Rightarrow> string" where
  "fillna d c = (case c of None \<Rightarrow> d | Some s \<Rightarrow> s)"

definition lap_label :: "lap \<Rightarrow> string" where
  "lap_label r =
     astype_str_number (LapNumber r) @ label_sep @
     fillna ''NaT'' (astype_str_time (LapTime r))"

definition load_driver_laps :: "session \<Rightarrow> string \<Rightarrow> error + labelled_laps" where
  "load_driver_laps ses driver_code =
     ebind (pick_driver ses driver_code)
       (\<lambda>laps.
          if \<not> laps_empty laps then
            if ''LapTime'' \<notin> set (lcolumns laps) \<or> ''LapNumber'' \<notin> set (lcolumns laps)
            then Inl KeyError
            else Inr \<lparr>lcolumns = (if ''LapLabel'' \<in> set (lcolumns laps) then lcolumns laps
                                    else lcolumns laps @ [''LapLabel'']),
                      lrows = lrows laps,
                      LapLabel = Some (map lap_label (lrows laps))\<rparr>
          else Inr \<lparr>lcolumns = lcolumns laps, lrows = lrows laps, LapLabel = None\<rparr>)"

text \<open>The lap number read back from a chosen label: \<^verbatim>\<open>int(str(lap).split(SEP)[0])\<close>, SEP the separator.\<close>

definition label_lap_number :: "string \<Rightarrow> error + int" where
  "label_lap_number lab =
     ebind (py_split lab label_sep)
       (\<lambda>toks. case toks of [] \<Rightarrow> Inl IndexError | t # _ \<Rightarrow> py_int t)"

section \<open>Team and colour of a driver\<close>

text \<open>
  The body of the \<^verbatim>\<open>try\<close> block of \<^verbatim>\<open>_driver_team\<close>: \<open>Inr (Some t)\<close> is the
  \<^verbatim>\<open>return\<close> inside it, \<open>Inr None\<close> is falling out of the block, \<open>Inl e\<close> is an
  exception raised in it.
\<close>

definition driver_info_team :: "session \<Rightarrow> string \<Rightarrow> error + string option" where
  "driver_info_team ses code =
     ebind (get_driver ses code)
       (\<lambda>info. case info of
            InfoDict d \<Rightarrow>
              (case map_of d ''TeamName'' of
                 Some v \<Rightarrow> if truthy v then Inr (Some (py_str v)) else Inr None
               | None \<Rightarrow> Inr None)
          | InfoObject _ \<Rightarrow> Inr None)"

text \<open>
  \<^verbatim>\<open>_driver_team\<close>. The laps are asked for before the \<^verbatim>\<open>try\<close> block, so an exception
  of that call leaves the function; what the block raises is caught.
\<close>

definition driver_team :: "session \<Rightarrow> string \<Rightarrow> error + string" where
  "driver_team ses code =
     ebind (pick_driver ses code)
       (\<lambda>laps.
          if \<not> laps_empty laps \<and> ''Team'' \<in> set (lcolumns laps) \<and>
             notna (Team (hd (lrows laps)))
          then Inr (py_str (Team (hd (lrows laps))))
          else (case driver_info_team ses code of
                  Inr (Some t) \<Rightarrow> Inr t
                | Inr None \<Rightarrow> Inr ''Unknown''
                | Inl e \<Rightarrow> Inr ''Unknown''))"

text \<open>
  The field of a driver's details, whatever kind of object the provider answered with.
\<close>

fun info_field :: "driver_info \<Rightarrow> string \<Rightarrow> pyval option" where
  "info_field (InfoDict d) k = map_of d k"
| "info_field (InfoObject d) k = map_of d k"

text \<open>
  The provider's \<^verbatim>\<open>team_color\<close> is a lookup that may raise; each side has its own
  colour for that case.
\<close>

definition color_a :: "(string \<Rightarrow> error + string) \<Rightarrow> string \<Rightarrow> string" where
  "color_a team_color team_a =
     (case team_color team_a of Inr c \<Rightarrow> c | Inl e \<Rightarrow> ''#1f77b4'')"

definition color_b :: "(string \<Rightarrow> error + string) \<Rightarrow> string \<Rightarrow> string" where
  "color_b team_color team_b =
     (case team_color team_b of Inr c \<Rightarrow> c | Inl e \<Rightarrow> ''#ff7f0e'')"

section \<open>Telemetry frames\<close>

text \<open>
  A cell of a telemetry channel: missing, a boolean, an integer, or a number with a
  fractional part (taken exactly, as a rational; rounding is not modelled).
\<close>

datatype cell = CNull | CBool bool | CInt int | CNum rat

text \<open>A frame: its row index and its columns, in order, each with its name.\<close>

record frame =
  findex :: "int list"
  cols :: "(string \<times> cell list) list"

definition has_col :: "frame \<Rightarrow> string \<Rightarrow> bool" where
  "has_col t c = (c \<in> set (map fst (cols t)))"

definition getitem :: "frame \<Rightarrow> string \<Rightarrow> error + cell list" where
  "getitem t c = (case map_of (cols t) c of None \<Rightarrow> Inl KeyError | Some v \<Rightarrow> Inr v)"

definition frame_empty :: "frame \<Rightarrow> bool" where
  "frame_empty t = (findex t = [] \<or> cols t = [])"

definition reset_index :: "frame \<Rightarrow> frame" where
  "reset_index t = t\<lparr>findex := map int [0 ..< length (findex t)]\<rparr>"

text \<open>Assigning a column: in its place when the name is there, at the end otherwise.\<close>

fun set_col :: "string \<Rightarrow> cell list \<Rightarrow> (string \<times> cell list) list \<Rightarrow> (string \<times> cell list) list" where
  "set_col c v [] = [(c, v)]"
| "set_col c v (p # ps) = (if fst p = c then (c, v) # ps else p # set_col c v ps)"

definition setitem :: "frame \<Rightarrow> string \<Rightarrow> cell list \<Rightarrow> frame" where
  "setitem t c v = t\<lparr>cols := set_col c v (cols t)\<rparr>"

text \<open>
  \<^verbatim>\<open>astype(int)\<close>: a boolean becomes 0 or 1, an integer stays, a fraction is cut
  towards zero, and a missing value cannot be converted.
\<close>

fun astype_int :: "cell \<Rightarrow> error + cell" where
  "astype_int CNull = Inl ValueError"
| "astype_int (CBool b) = Inr (CInt (if b then 1 else 0))"
| "astype_int (CInt i) = Inr (CInt i)"
| "astype_int (CNum r) = Inr (CInt (if 0 \<le> r then \<lfloor>r\<rfloor> else \<lceil>r\<rceil>))"

fun astype_int_col :: "cell list \<Rightarrow> error + cell list" where
  "astype_int_col [] = Inr []"
| "astype_int_col (c # cs) =
     ebind (astype_int c) (\<lambda>v. ebind (astype_int_col cs) (\<lambda>vs. Inr (v # vs)))"

text \<open>The provider's lap object; asking it for its telemetry may raise.\<close>

record lap_handle =
  get_telemetry :: "error + frame"

definition load_lap_telemetry :: "session \<Rightarrow> lap_handle \<Rightarrow> error + frame" where
  "load_lap_telemetry ses lp =
     ebind (get_telemetry lp)
       (\<lambda>raw. let tel = reset_index raw in
          if has_col tel ''Brake''
          then ebind (getitem tel ''Brake'')
                 (\<lambda>b. ebind (astype_int_col b) (\<lambda>b'. Inr (setitem tel ''Brake'' b')))
          else Inr tel)"

section \<open>Alignment and the x axis\<close>

text \<open>
  \<open>delta\<close> is the outcome of the provider's \<^verbatim>\<open>delta_time(lap_a, lap_b)\<close>: an
  exception, or the delta series with the two aligned frames. It is looked at only
  when alignment is asked for.
\<close>

definition align ::
  "bool \<Rightarrow> error + (cell list \<times> frame \<times> frame) \<Rightarrow> frame \<Rightarrow> frame \<Rightarrow> frame \<times> frame" where
  "align show_delta delta tel_a tel_b =
     (if show_delta
      then (case delta of
              Inr (d, a, b) \<Rightarrow> (a, b)
            | Inl e \<Rightarrow> (tel_a, tel_b))
      else (tel_a, tel_b))"

datatype xaxis = XValues "cell list" | XIndex "int list"

definition x_axis :: "frame \<Rightarrow> error + xaxis" where
  "x_axis t =
     (if has_col t ''Distance''
      then ebind (getitem t ''Distance'') (\<lambda>d. Inr (XValues d))
      else Inr (XIndex (findex t)))"

section \<open>The four panels\<close>

record trace =
  tx :: xaxis
  ty :: "cell list"
  tname :: string
  tmode :: string
  tcolor :: string
  tdash :: "string option"

definition Scatter ::
  "xaxis \<Rightarrow> cell list \<Rightarrow> string \<Rightarrow> string \<Rightarrow> string \<Rightarrow> string option \<Rightarrow> trace" where
  "Scatter x y nm md col dsh =
     \<lparr>tx = x, ty = y, tname = nm, tmode = md, tcolor = col, tdash = dsh\<rparr>"

record figure =
  traces :: "trace list"
  xaxis_title :: string
  yaxis_title :: string
  scaleanchor :: "(string \<times> int) option"

text \<open>Arithmetic on a channel: \<^verbatim>\<open>series * k\<close> and \<^verbatim>\<open>series / k\<close> for an integer k.\<close>

fun mul_int :: "int \<Rightarrow> cell \<Rightarrow> cell" where
  "mul_int k CNull = CNull"
| "mul_int k (CBool b) = CInt ((if b then 1 else 0) * k)"
| "mul_int k (CInt i) = CInt (i * k)"
| "mul_int k (CNum r) = CNum (r * of_int k)"

fun div_int :: "int \<Rightarrow> cell \<Rightarrow> cell" where
  "div_int k CNull = CNull"
| "div_int k (CBool b) = CNum ((if b then 1 else 0) / of_int k)"
| "div_int k (CInt i) = CNum (of_int i / of_int k)"
| "div_int k (CNum r) = CNum (r / of_int k)"

text \<open>
  One guarded addition: \<^verbatim>\<open>if c in t: fig.add_trace(go.Scatter(..., y=t[c], ...))\<close>.
\<close>

definition add_if_col ::
  "frame \<Rightarrow> string \<Rightarrow> (cell list \<Rightarrow> trace) \<Rightarrow> trace list \<Rightarrow> error + trace list" where
  "add_if_col t c mk ts =
     (if has_col t c then ebind (getitem t c) (\<lambda>y. Inr (ts @ [mk y])) else Inr ts)"

definition speed_fig ::
  "string \<Rightarrow> string \<Rightarrow> string \<Rightarrow> string \<Rightarrow> frame \<Rightarrow> frame \<Rightarrow> xaxis \<Rightarrow> xaxis \<Rightarrow> error + figure" where
  "speed_fig d1 d2 ca cb ta tb xa xb =
     ebind (add_if_col ta ''Speed'' (\<lambda>y. Scatter xa y d1 ''lines'' ca None) []) (\<lambda>t1.
     ebind (add_if_col tb ''Speed'' (\<lambda>y. Scatter xb y d2 ''lines'' cb None) t1) (\<lambda>t2.
     Inr \<lparr>traces = t2, xaxis_title = ''Distance (m)'', yaxis_title = ''Speed (km/h)'',
          scaleanchor = None\<rparr>))"

definition throttle_brake_fig ::
  "string \<Rightarrow> string \<Rightarrow> string \<Rightarrow> string \<Rightarrow> frame \<Rightarrow> frame \<Rightarrow> xaxis \<Rightarrow> xaxis \<Rightarrow> error + figure" where
  "throttle_brake_fig d1 d2 ca cb ta tb xa xb =
     ebind (add_if_col ta ''Throttle''
              (\<lambda>y. Scatter xa y (d1 @ '' throttle'') ''lines'' ca None) []) (\<lambda>t1.
     ebind (add_if_col ta ''Brake''
              (\<lambda>y. Scatter xa (map (mul_int 100) y) (d1 @ '' brake%'') ''lines'' ca (Some ''dash'')) t1) (\<lambda>t2.
     ebind (add_if_col tb ''Throttle''
              (\<lambda>y. Scatter xb y (d2 @ '' throttle'') ''lines'' cb None) t2) (\<lambda>t3.
     ebind (add_if_col tb ''Brake''
              (\<lambda>y. Scatter xb (map (mul_int 100) y) (d2 @ '' brake%'') ''lines'' cb (Some ''dash'')) t3) (\<lambda>t4.
     Inr \<lparr>traces = t4, xaxis_title = ''Distance (m)'', yaxis_title = ''Input (%)'',
          scaleanchor = None\<rparr>))))"

definition gear_rpm_fig ::
  "string \<Rightarrow> string \<Rightarrow> string \<Rightarrow> string \<Rightarrow> frame \<Rightarrow> frame \<Rightarrow> xaxis \<Rightarrow> xaxis \<Rightarrow> error + figure" where
  "gear_rpm_fig d1 d2 ca cb ta tb xa xb =
     ebind (add_if_col ta ''nGear''
              (\<lambda>y. Scatter xa y (d1 @ '' gear'') ''lines'' ca None) []) (\<lambda>t1.
     ebind (add_if_col tb ''nGear''
              (\<lambda>y. Scatter xb y (d2 @ '' gear'') ''lines'' cb None) t1) (\<lambda>t2.
     ebind (add_if_col ta ''RPM''
              (\<lambda>y. Scatter xa (map (div_int 1000) y) (d1 @ '' RPM x1000'') ''lines'' ca (Some ''dot'')) t2) (\<lambda>t3.
     ebind (add_if_col tb ''RPM''
              (\<lambda>y. Scatter xb (map (div_int 1000) y) (d2 @ '' RPM x1000'') ''lines'' cb (Some ''dot'')) t3) (\<lambda>t4.
     Inr \<lparr>traces = t4, xaxis_title = ''Distance (m)'', yaxis_title = ''Gear / RPM x1000'',
          scaleanchor = None\<rparr>))))"

text \<open>The fourth panel is a chart of the two position traces or a message.\<close>

datatype map_panel = MapChart figure | MapInfo string

definition track_map ::
  "string \<Rightarrow> string \<Rightarrow> string \<Rightarrow> string \<Rightarrow> frame \<Rightarrow> frame \<Rightarrow> error + map_panel" where
  "track_map d1 d2 ca cb tel_a tel_b =
     (if list_all (has_col tel_a) [''X'', ''Y''] \<and> list_all (has_col tel_b) [''X'', ''Y'']
      then
        ebind (getitem tel_a ''X'') (\<lambda>ax. ebind (getitem tel_a ''Y'') (\<lambda>ay.
        ebind (getitem tel_b ''X'') (\<lambda>bx. ebind (getitem tel_b ''Y'') (\<lambda>by.
        Inr (MapChart
          \<lparr>traces = [Scatter (XValues ax) ay d1 ''lines'' ca None,
                     Scatter (XValues bx) by d2 ''lines'' cb None],
           xaxis_title = ''X'', yaxis_title = ''Y'',
           scaleanchor = Some (''x'', 1)\<rparr>)))))
      else Inr (MapInfo ''Track position data not available for this session or lap.''))"

fun map_traces :: "map_panel \<Rightarrow> trace list" where
  "map_traces (MapChart f) = traces f"
| "map_traces (MapInfo m) = []"

record panels =
  fig :: figure
  fig2 :: figure
  fig3 :: figure
  map_fig :: map_panel

text \<open>
  The render pass once both laps' telemetry is loaded: alignment, the x axes, the
  teams, the colours, then the four panels in the order of the page. The two calls of
  \<^verbatim>\<open>_driver_team\<close> stand outside any \<^verbatim>\<open>try\<close>: what they raise ends the pass.
\<close>

definition render_panels ::
  "session \<Rightarrow> (string \<Rightarrow> error + string) \<Rightarrow> error + (cell list \<times> frame \<times> frame) \<Rightarrow>
   string \<Rightarrow> string \<Rightarrow> bool \<Rightarrow> frame \<Rightarrow> frame \<Rightarrow> error + panels" where
  "render_panels ses team_color delta d1 d2 show_delta tel_a tel_b =
     (let (ta, tb) = align show_delta delta tel_a tel_b in
      ebind (x_axis ta) (\<lambda>xa. ebind (x_axis tb) (\<lambda>xb.
      ebind (driver_team ses d1) (\<lambda>team_a. ebind (driver_team ses d2) (\<lambda>team_b.
      let ca = color_a team_color team_a;
          cb = color_b team_color team_b in
      ebind (speed_fig d1 d2 ca cb ta tb xa xb) (\<lambda>f1.
      ebind (throttle_brake_fig d1 d2 ca cb ta tb xa xb) (\<lambda>f2.
      ebind (gear_rpm_fig d1 d2 ca cb ta tb xa xb) (\<lambda>f3.
      ebind (track_map d1 d2 ca cb tel_a tel_b) (\<lambda>m.
      Inr \<lparr>fig = f1, fig2 = f2, fig3 = f3, map_fig = m\<rparr>)))))))))"

definition render_pass ::
  "session \<Rightarrow> (string \<Rightarrow> error + string) \<Rightarrow> error + (cell list \<times> frame \<times> frame) \<Rightarrow>
   string \<Rightarrow> string \<Rightarrow> bool \<Rightarrow> lap_handle \<Rightarrow> lap_handle \<Rightarrow> error + panels" where
  "render_pass ses team_color delta d1 d2 show_delta lap_a lap_b =
     ebind (load_lap_telemetry ses lap_a) (\<lambda>tel_a.
     ebind (load_lap_telemetry ses lap_b) (\<lambda>tel_b.
     render_panels ses team_color delta d1 d2 show_delta tel_a tel_b))"

section \<open>Auxiliary functions and example inputs\<close>

text \<open>The value of a digit string read from the left, starting from \<open>a\<close>.\<close>

fun dec_value :: "nat \<Rightarrow> string \<Rightarrow> nat" where
  "dec_value a [] = a"
| "dec_value a (c # cs) = dec_value (a * 10 + digit_val c) cs"


text \<open>
  A session with two laps of driver 44, numbered by floats as the provider does, the
  second without a lap time, and no laps of anybody else; its driver-info query raises.
  In the second session asking for a driver's laps raises.
\<close>

definition example_session :: session where
  "example_session =
     \<lparr>pick_driver = (\<lambda>code.
        if code = ''44''
        then Inr \<lparr>lcolumns = [''LapNumber'', ''LapTime'', ''Team''],
                  lrows = [\<lparr>LapNumber = LapFloat 1, LapTime = Some ''0 days 00:01:35.123000'',
                            Team = PyStr ''Mercedes''\<rparr>,
                           \<lparr>LapNumber = LapFloat 12, LapTime = None,
                            Team = PyStr ''Mercedes''\<rparr>]\<rparr>
        else Inr \<lparr>lcolumns = [''LapNumber'', ''LapTime'', ''Team''], lrows = []\<rparr>),
      get_driver = (\<lambda>code. Inl ProviderError)\<rparr>"

definition raising_session :: session where
  "raising_session =
     \<lparr>pick_driver = (\<lambda>code. Inl ProviderError),
      get_driver = (\<lambda>code. Inr (InfoDict [(''TeamName'', PyStr ''Ferrari'')]))\<rparr>"

text \<open>
  The test of \<^verbatim>\<open>_driver_team\<close> on the driver's laps: there is a lap, the table has a
  \<^verbatim>\<open>Team\<close> column, and the team of the first lap is not missing.
\<close>

definition lap_team_known :: "laps_frame \<Rightarrow> bool" where
  "lap_team_known laps =
     (\<not> laps_empty laps \<and> ''Team'' \<in> set (lcolumns laps) \<and> notna (Team (hd (lrows laps))))"

text \<open>
  What one guarded addition contributes to a figure: the trace built from the column
  when the frame has it, nothing otherwise.
\<close>

definition col_traces :: "frame \<Rightarrow> string \<Rightarrow> (cell list \<Rightarrow> trace) \<Rightarrow> trace list" where
  "col_traces t c mk = (case map_of (cols t) c of None \<Rightarrow> [] | Some y \<Rightarrow> [mk y])"

text \<open>A cell that is a boolean.\<close>

fun is_bool_cell :: "cell \<Rightarrow> bool" where
  "is_bool_cell (CBool b) = True"
| "is_bool_cell _ = False"

text \<open>A cell that is an integer.\<close>

fun is_int_cell :: "cell \<Rightarrow> bool" where
  "is_int_cell (CInt i) = True"
| "is_int_cell _ = False"

text \<open>
  A lap table without rows, and two sessions that have no other: the driver-info query
  of the first answers with an object that is not a dictionary, the query of the second
  with a dictionary.
\<close>

definition no_laps :: laps_frame where
  "no_laps = \<lparr>lcolumns = [''LapNumber'', ''LapTime'', ''Team''], lrows = []\<rparr>"

definition object_info_session :: session where
  "object_info_session =
     \<lparr>pick_driver = (\<lambda>code. Inr no_laps),
      get_driver = (\<lambda>code. Inr (InfoObject [(''TeamName'', PyStr ''Ferrari'')]))\<rparr>"

definition dict_info_session :: session where
  "dict_info_session =
     \<lparr>pick_driver = (\<lambda>code. Inr no_laps),
      get_driver = (\<lambda>code. Inr (InfoDict [(''TeamName'', PyStr ''Ferrari'')]))\<rparr>"

text \<open>A colour lookup that knows one team and raises for every other name.\<close>

definition example_team_color :: "string \<Rightarrow> error + string" where
  "example_team_color team = (if team = ''Mercedes'' then Inr ''#00d2be'' else Inl KeyError)"

text \<open>
  Frames used as concrete inputs: a frame with the usual channels and a boolean brake
  channel, a frame without a distance column, a frame whose brake channel is a
  percentage, and a frame whose position columns hold only missing values.
\<close>

definition example_frame :: frame where
  "example_frame =
     \<lparr>findex = [7, 8],
      cols = [(''Distance'', [CInt 0, CInt 25]),
              (''Speed'', [CInt 280, CInt 284]),
              (''Brake'', [CBool False, CBool True]),
              (''RPM'', [CInt 11000, CInt 10500]),
              (''X'', [CInt (-120), CInt (-95)]),
              (''Y'', [CInt 300, CInt 310])]\<rparr>"

definition no_distance_frame :: frame where
  "no_distance_frame =
     \<lparr>findex = [0, 1], cols = [(''Speed'', [CInt 280, CInt 284])]\<rparr>"

definition percent_brake_frame :: frame where
  "percent_brake_frame = \<lparr>findex = [0], cols = [(''Brake'', [CInt 100])]\<rparr>"

definition null_position_frame :: frame where
  "null_position_frame = \<lparr>findex = [0], cols = [(''X'', [CNull]), (''Y'', [CNull])]\<rparr>"

text \<open>
  Two laps of the provider, one for each of the first and third frame above, and the
  frame that loading the first lap gives.
\<close>

definition example_lap :: lap_handle where
  "example_lap = \<lparr>get_telemetry = Inr example_frame\<rparr>"

definition percent_brake_lap :: lap_handle where
  "percent_brake_lap = \<lparr>get_telemetry = Inr percent_brake_frame\<rparr>"

definition loaded_example_frame :: frame where
  "loaded_example_frame =
     \<lparr>findex = [0, 1],
      cols = [(''Distance'', [CInt 0, CInt 25]),
              (''Speed'', [CInt 280, CInt 284]),
              (''Brake'', [CInt 0, CInt 1]),
              (''RPM'', [CInt 11000, CInt 10500]),
              (''X'', [CInt (-120), CInt (-95)]),
              (''Y'', [CInt 300, CInt 310])]\<rparr>"

text \<open>The test of the track map on one frame: it has both position columns.\<close>

definition has_xy :: "frame \<Rightarrow> bool" where
  "has_xy t = (has_col t ''X'' \<and> has_col t ''Y'')"

section \<open>Reading lap labels back\<close>

lemma is_digit_digit_chr: "d < 10 \<Longrightarrow> is_digit (digit_chr d)"
  by (simp add: is_digit_def digit_chr_def)

lemma digit_val_digit_chr: "d < 10 \<Longrightarrow> digit_val (digit_chr d) = d"
  by (simp add: digit_val_def digit_chr_def)

lemma is_digit_not_space: "is_digit c \<Longrightarrow> \<not> is_space c"
  by (auto simp: is_space_def is_digit_def Let_def)

lemma is_digit_not_sign: "is_digit c \<Longrightarrow> c \<noteq> CHR ''-'' \<and> c \<noteq> CHR ''+'' \<and> c \<noteq> CHR '' ''"
  by (auto simp: is_digit_def)

lemma dec_value_snoc: "dec_value a (cs @ [c]) = dec_value a cs * 10 + digit_val c"
  by (induction cs arbitrary: a) auto

lemma parse_digits_all:
  "\<forall>c \<in> set ds. is_digit c \<Longrightarrow>
   parse_digits p a ds = (if ds = [] then (if p then Some a else None) else Some (dec_value a ds))"
  by (induction ds arbitrary: p a) auto

lemma dec_digits_step:
  "\<not> n < 10 \<Longrightarrow> dec_digits n acc = dec_digits (n div 10) (digit_chr (n mod 10) # acc)"
  by (subst dec_digits.simps) simp

lemma dec_digits_small: "n < 10 \<Longrightarrow> dec_digits n acc = digit_chr n # acc"
  by (subst dec_digits.simps) simp

lemma dec_digits_append: "dec_digits n (acc @ rest) = dec_digits n acc @ rest"
proof (induction n acc rule: dec_digits.induct)
  case (1 n acc)
  show ?case
  proof (cases "n < 10")
    case True
    then show ?thesis by (simp add: dec_digits_small)
  next
    case False
    then show ?thesis
      using "1.IH" by (simp add: dec_digits_step)
  qed
qed

lemma dec_digits_unfold:
  "\<not> n < 10 \<Longrightarrow> dec_digits n [] = dec_digits (n div 10) [] @ [digit_chr (n mod 10)]"
  using dec_digits_append [of "n div 10" "[]" "[digit_chr (n mod 10)]"]
  by (simp add: dec_digits_step)

lemma dec_digits_digits: "\<forall>c \<in> set (dec_digits n []). is_digit c"
proof (induction n rule: less_induct)
  case (less n)
  show ?case
  proof (cases "n < 10")
    case True
    then show ?thesis by (simp add: dec_digits_small is_digit_digit_chr)
  next
    case False
    moreover have "\<forall>c \<in> set (dec_digits (n div 10) []). is_digit c"
      using False by (intro less.IH) simp
    ultimately show ?thesis by (simp add: dec_digits_unfold is_digit_digit_chr)
  qed
qed

lemma dec_digits_nonempty: "dec_digits n [] \<noteq> []"
  by (cases "n < 10") (simp_all add: dec_digits_small dec_digits_unfold)

lemma dec_value_dec_digits: "dec_value 0 (dec_digits n []) = n"
proof (induction n rule: less_induct)
  case (less n)
  show ?case
  proof (cases "n < 10")
    case True
    then show ?thesis by (simp add: dec_digits_small digit_val_digit_chr)
  next
    case False
    moreover have "dec_value 0 (dec_digits (n div 10) []) = n div 10"
      using False by (intro less.IH) simp
    ultimately show ?thesis
      by (simp add: dec_digits_unfold dec_value_snoc digit_val_digit_chr)
  qed
qed

lemma parse_dec_digits: "parse_digits False 0 (dec_digits n []) = Some n"
  using parse_digits_all [OF dec_digits_digits, of False 0 n]
  by (simp add: dec_digits_nonempty dec_value_dec_digits)

lemma dropWhile_head: "s \<noteq> [] \<Longrightarrow> \<not> P (hd s) \<Longrightarrow> dropWhile P s = s"
  by (cases s) auto

lemma py_strip_id:
  assumes "s \<noteq> []" and "\<not> is_space (hd s)" and "\<not> is_space (last s)"
  shows "py_strip s = s"
proof -
  have "dropWhile is_space s = s"
    using assms by (simp add: dropWhile_head)
  moreover have "dropWhile is_space (rev s) = rev s"
    using assms by (intro dropWhile_head) (simp_all add: hd_rev)
  ultimately show ?thesis by (simp add: py_strip_def)
qed

lemma py_int_digits:
  assumes "ds \<noteq> []" and "\<forall>c \<in> set ds. is_digit c"
  shows "py_int ds = Inr (int (dec_value 0 ds))"
    and "py_int (CHR ''-'' # ds) = Inr (- int (dec_value 0 ds))"
proof -
  have sp: "\<not> is_space (hd ds)" "\<not> is_space (last ds)"
    using assms by (simp_all add: is_digit_not_space)
  have sg: "hd ds \<noteq> CHR ''-''" "hd ds \<noteq> CHR ''+''"
    using assms is_digit_not_sign [of "hd ds"] by simp_all
  have p: "parse_digits False 0 ds = Some (dec_value 0 ds)"
    using assms by (simp add: parse_digits_all)
  obtain c cs where ds: "ds = c # cs"
    using assms(1) by (cases ds) auto
  have "py_strip ds = c # cs"
    using py_strip_id [OF assms(1) sp] by (simp add: ds)
  moreover have "parse_digits False 0 (c # cs) = Some (dec_value 0 ds)"
    using p by (simp only: ds)
  ultimately show "py_int ds = Inr (int (dec_value 0 ds))"
    using sg by (simp add: py_int_def ds del: parse_digits.simps)
  have "py_strip (CHR ''-'' # ds) = CHR ''-'' # ds"
    using assms(1) sp by (intro py_strip_id) (simp_all add: is_space_def)
  then show "py_int (CHR ''-'' # ds) = Inr (- int (dec_value 0 ds))"
    using p by (simp add: py_int_def)
qed

lemma py_int_py_str_int: "py_int (py_str_int i) = Inr i"
  using py_int_digits [OF dec_digits_nonempty dec_digits_digits]
  by (simp add: py_str_int_def dec_value_dec_digits)

lemma py_str_int_no_space: "\<forall>c \<in> set (py_str_int i). c \<noteq> CHR '' ''"
  using dec_digits_digits is_digit_not_sign by (auto simp: py_str_int_def)

lemma split_from_first:
  assumes "sp \<noteq> []" and "\<forall>c \<in> set xs. c \<noteq> hd sp"
  shows "split_from sp tok (xs @ sp @ t) = (rev tok @ xs) # split_from sp [] t"
  using assms(2)
proof (induction xs arbitrary: tok)
  case Nil
  obtain c cs where sp: "sp = c # cs" using assms(1) by (cases sp) auto
  have "split_from sp tok (c # (cs @ t)) = rev tok # split_from sp [] t"
    by (subst split_from.simps) (simp add: sp)
  then show ?case by (simp add: sp)
next
  case (Cons x xs)
  have "take (length sp) (x # xs @ sp @ t) \<noteq> sp"
    using Cons.prems assms(1) by (cases sp) auto
  then show ?case using Cons by simp
qed

lemma parse_digits_stop:
  "\<forall>c \<in> set ds. is_digit c \<Longrightarrow> parse_digits p a (ds @ CHR ''.'' # rest) = None"
  by (induction ds arbitrary: p a) (auto simp: is_digit_def)

lemma py_int_float_text:
  assumes "ds \<noteq> []" and "\<forall>c \<in> set ds. is_digit c"
  shows "py_int (ds @ ''.0'') = Inl ValueError"
    and "py_int (CHR ''-'' # ds @ ''.0'') = Inl ValueError"
proof -
  obtain c cs where ds: "ds = c # cs"
    using assms(1) by (cases ds) auto
  have c: "is_digit c"
    using assms(2) by (simp add: ds)
  have z: "\<not> is_space (CHR ''0'')" "\<not> is_space (CHR ''-'')"
    by (simp_all add: is_space_def)
  have p: "parse_digits False 0 (ds @ ''.0'') = None"
    using assms(2) by (simp add: parse_digits_stop)
  have "py_strip (ds @ ''.0'') = c # cs @ ''.0''"
    using py_strip_id [of "ds @ ''.0''"] c z by (simp add: ds is_digit_not_space)
  moreover have "parse_digits False 0 (c # cs @ ''.0'') = None"
    using p by (simp only: ds append_Cons)
  ultimately show "py_int (ds @ ''.0'') = Inl ValueError"
    using is_digit_not_sign [OF c] by (simp add: py_int_def del: parse_digits.simps)
  have "py_strip (CHR ''-'' # ds @ ''.0'') = CHR ''-'' # ds @ ''.0''"
    using py_strip_id [of "CHR ''-'' # ds @ ''.0''"] z by simp
  then show "py_int (CHR ''-'' # ds @ ''.0'') = Inl ValueError"
    using p by (simp add: py_int_def del: parse_digits.simps)
qed

lemma py_int_float_lap: "py_int (py_str_int i @ ''.0'') = Inl ValueError"
  using py_int_float_text [OF dec_digits_nonempty dec_digits_digits]
  by (simp add: py_str_int_def)

lemma py_int_nan: "py_int ''nan'' = Inl ValueError"
  by (simp add: py_int_def py_strip_def is_space_def is_digit_def)

lemma py_int_astype_str_number:
  "py_int (astype_str_number x) =
     (case x of LapInt n \<Rightarrow> Inr n | LapFloat n \<Rightarrow> Inl ValueError | LapNaN \<Rightarrow> Inl ValueError)"
  by (cases x) (simp_all add: py_int_py_str_int py_int_float_lap py_int_nan)

lemma astype_str_number_no_space: "\<forall>c \<in> set (astype_str_number x). c \<noteq> CHR '' ''"
  using py_str_int_no_space by (cases x) auto

lemma label_lap_number_lap_label:
  "label_lap_number (lap_label r) =
     (case LapNumber r of
        LapInt n \<Rightarrow> Inr n | LapFloat n \<Rightarrow> Inl ValueError | LapNaN \<Rightarrow> Inl ValueError)"
  using split_from_first [of label_sep "astype_str_number (LapNumber r)" "[]"]
    astype_str_number_no_space
  by (simp add: label_lap_number_def lap_label_def py_split_def ebind_def
      py_int_astype_str_number label_sep_def)

lemma lap_label_form:
  "lap_label r =
     astype_str_number (LapNumber r) @ label_sep @
     (case LapTime r of None \<Rightarrow> ''NaT'' | Some t \<Rightarrow> t)"
  by (simp add: lap_label_def fillna_def astype_str_time_def split: option.splits)

text \<open>
  C1. For a driver with at least one recorded lap, every label that
  \<open>load_driver_laps\<close> produces is the text of the lap number, the separator
  \<open>label_sep\<close>, and the lap time's text or \<^verbatim>\<open>NaT\<close>. Cutting the label at the separator
  and reading the first token with \<^verbatim>\<open>int\<close> gives back the lap number when the number is
  the cell of an integer column. The provider's column holds floats: there the text of
  the number ends in \<^verbatim>\<open>.0\<close>, the label does not start with an integer, and reading it
  back raises \<^verbatim>\<open>ValueError\<close>. The labels are produced whenever the lap table has its
  \<^verbatim>\<open>LapTime\<close> and \<^verbatim>\<open>LapNumber\<close> columns.
\<close>

theorem lap_label_read_back:
  assumes "pick_driver ses code = Inr laps" and "\<not> laps_empty laps"
  shows "(\<forall>out. load_driver_laps ses code = Inr out \<longrightarrow>
            (\<exists>labels. LapLabel out = Some labels \<and>
               lrows out = lrows laps \<and>
               length labels = length (lrows out) \<and>
               (\<forall>i < length labels.
                  labels ! i =
                    astype_str_number (LapNumber (lrows out ! i)) @ label_sep @
                    (case LapTime (lrows out ! i) of None \<Rightarrow> ''NaT'' | Some t \<Rightarrow> t) \<and>
                  label_lap_number (labels ! i) =
                    (case LapNumber (lrows out ! i) of
                       LapInt n \<Rightarrow> Inr n
                     | LapFloat n \<Rightarrow> Inl ValueError
                     | LapNaN \<Rightarrow> Inl ValueError))))
       \<and> (''LapTime'' \<in> set (lcolumns laps) \<and> ''LapNumber'' \<in> set (lcolumns laps) \<longrightarrow>
            (\<exists>out. load_driver_laps ses code = Inr out))"
proof (intro conjI allI impI)
  fix out
  assume ld: "load_driver_laps ses code = Inr out"
  from ld assms have lab: "LapLabel out = Some (map lap_label (lrows laps))"
    and rows: "lrows out = lrows laps"
    by (auto simp: load_driver_laps_def ebind_def split: if_splits)
  show "\<exists>labels. LapLabel out = Some labels \<and>
               lrows out = lrows laps \<and>
               length labels = length (lrows out) \<and>
               (\<forall>i < length labels.
                  labels ! i =
                    astype_str_number (LapNumber (lrows out ! i)) @ label_sep @
                    (case LapTime (lrows out ! i) of None \<Rightarrow> ''NaT'' | Some t \<Rightarrow> t) \<and>
                  label_lap_number (labels ! i) =
                    (case LapNumber (lrows out ! i) of
                       LapInt n \<Rightarrow> Inr n
                     | LapFloat n \<Rightarrow> Inl ValueError
                     | LapNaN \<Rightarrow> Inl ValueError))"
    using lab rows
    by (intro exI [of _ "map lap_label (lrows laps)"])
       (simp add: label_lap_number_lap_label lap_label_form [symmetric])
next
  assume "''LapTime'' \<in> set (lcolumns laps) \<and> ''LapNumber'' \<in> set (lcolumns laps)"
  then show "\<exists>out. load_driver_laps ses code = Inr out"
    using assms by (simp add: load_driver_laps_def ebind_def)
qed

theorem lap_label_read_back_witness:
  "(\<exists>laps. pick_driver example_session ''44'' = Inr laps \<and> \<not> laps_empty laps) \<and>
   (\<exists>out labels. load_driver_laps example_session ''44'' = Inr out \<and>
      LapLabel out = Some labels \<and>
      labels ! 1 = ''12.0'' @ label_sep @ ''NaT'' \<and>
      label_lap_number (labels ! 1) = Inl ValueError)"
proof -
  let ?laps = "\<lparr>lcolumns = [''LapNumber'', ''LapTime'', ''Team''],
                 lrows = [\<lparr>LapNumber = LapFloat 1, LapTime = Some ''0 days 00:01:35.123000'',
                           Team = PyStr ''Mercedes''\<rparr>,
                          \<lparr>LapNumber = LapFloat 12, LapTime = None,
                           Team = PyStr ''Mercedes''\<rparr>]\<rparr>"
  have pk: "pick_driver example_session ''44'' = Inr ?laps"
    by (simp add: example_session_def)
  have ne: "\<not> laps_empty ?laps"
    by (simp add: laps_empty_def)
  have cs: "''LapTime'' \<in> set (lcolumns ?laps) \<and> ''LapNumber'' \<in> set (lcolumns ?laps)"
    by simp
  from lap_label_read_back [OF pk ne] cs obtain out
    where out: "load_driver_laps example_session ''44'' = Inr out" by blast
  with lap_label_read_back [OF pk ne] obtain labels
    where l: "LapLabel out = Some labels"
      "lrows out = lrows ?laps"
      "length labels = length (lrows out)"
      "\<forall>i < length labels.
          labels ! i =
            astype_str_number (LapNumber (lrows out ! i)) @ label_sep @
            (case LapTime (lrows out ! i) of None \<Rightarrow> ''NaT'' | Some t \<Rightarrow> t) \<and>
          label_lap_number (labels ! i) =
            (case LapNumber (lrows out ! i) of
               LapInt n \<Rightarrow> Inr n
             | LapFloat n \<Rightarrow> Inl ValueError
             | LapNaN \<Rightarrow> Inl ValueError)"
    by blast
  have len: "1 < length labels"
    using l(2,3) by simp
  have r1: "lrows out ! 1 = \<lparr>LapNumber = LapFloat 12, LapTime = None, Team = PyStr ''Mercedes''\<rparr>"
    using l(2) by simp
  have s12: "py_str_int 12 = ''12''"
    by code_simp
  from l(4) len have "labels ! 1 =
            astype_str_number (LapNumber (lrows out ! 1)) @ label_sep @
            (case LapTime (lrows out ! 1) of None \<Rightarrow> ''NaT'' | Some t \<Rightarrow> t) \<and>
          label_lap_number (labels ! 1) =
            (case LapNumber (lrows out ! 1) of
               LapInt n \<Rightarrow> Inr n
             | LapFloat n \<Rightarrow> Inl ValueError
             | LapNaN \<Rightarrow> Inl ValueError)"
    by blast
  then have "labels ! 1 = ''12.0'' @ label_sep @ ''NaT'' \<and>
      label_lap_number (labels ! 1) = Inl ValueError"
    unfolding r1 by (auto simp: s12)
  with pk ne out l(1) show ?thesis by blast
qed

section \<open>Team and colour resolution\<close>

lemma ebind_Inr [simp]: "ebind (Inr x) f = f x"
  by (simp add: ebind_def)

lemma ebind_Inl [simp]: "ebind (Inl e) f = Inl e"
  by (simp add: ebind_def)

lemma ebind_eq_Inr: "ebind m f = Inr y \<longleftrightarrow> (\<exists>x. m = Inr x \<and> f x = Inr y)"
  by (cases m) simp_all

lemma driver_team_cases:
  "pick_driver ses code = Inr laps \<Longrightarrow>
   driver_team ses code =
     Inr (if lap_team_known laps then py_str (Team (hd (lrows laps)))
          else (case driver_info_team ses code of
                  Inr (Some t) \<Rightarrow> t | Inr None \<Rightarrow> ''Unknown'' | Inl e \<Rightarrow> ''Unknown''))"
  by (simp add: lap_team_known_def driver_team_def split: sum.splits option.splits)

lemma driver_team_returns:
  "pick_driver ses code = Inr laps \<Longrightarrow> \<exists>t. driver_team ses code = Inr t"
  by (simp add: driver_team_cases)

lemma driver_team_Inl:
  assumes "driver_team ses code = Inl e"
  shows "pick_driver ses code = Inl e"
proof (cases "pick_driver ses code")
  case (Inl x)
  with assms show ?thesis by (simp add: driver_team_def)
next
  case (Inr l)
  with assms driver_team_returns [OF Inr] show ?thesis by simp
qed

text \<open>
  C2, as stated, fails in two places. When the driver-info query answers with an object
  that is not a dictionary, its \<^verbatim>\<open>TeamName\<close> is not used, whatever it holds, and the
  result is \<^verbatim>\<open>Unknown\<close>. And when asking the session for the driver's laps raises, the
  exception leaves \<open>driver_team\<close>: that call stands before the \<^verbatim>\<open>try\<close> block.
\<close>

theorem driver_team_object_info_counterexample:
  "pick_driver object_info_session ''16'' = Inr no_laps \<and>
   \<not> lap_team_known no_laps \<and>
   get_driver object_info_session ''16'' = Inr (InfoObject [(''TeamName'', PyStr ''Ferrari'')]) \<and>
   info_field (InfoObject [(''TeamName'', PyStr ''Ferrari'')]) ''TeamName'' = Some (PyStr ''Ferrari'') \<and>
   truthy (PyStr ''Ferrari'') \<and>
   py_str (PyStr ''Ferrari'') = ''Ferrari'' \<and>
   driver_team object_info_session ''16'' = Inr ''Unknown'' \<and>
   driver_team object_info_session ''16'' \<noteq> Inr ''Ferrari'' \<and>
   pick_driver raising_session ''16'' = Inl ProviderError \<and>
   driver_team raising_session ''16'' = Inl ProviderError"
  by (simp add: object_info_session_def raising_session_def no_laps_def lap_team_known_def
      laps_empty_def driver_team_def driver_info_team_def)

text \<open>
  C2, amended. When the session gives the driver's laps, \<open>driver_team\<close> returns a team
  name: the team of the driver's first lap when there is a lap, a \<^verbatim>\<open>Team\<close> column and a
  team that is not missing; otherwise the \<^verbatim>\<open>TeamName\<close> of the driver-info query when the
  query succeeds, its answer is a dictionary, and the entry is there and true as a
  condition; and \<^verbatim>\<open>Unknown\<close> in every other case, also when the query raises. It raises
  exactly when asking the session for the driver's laps raises, with that exception.
\<close>

theorem driver_team_fallback:
  "(pick_driver ses code = Inr laps \<and> lap_team_known laps \<longrightarrow>
      driver_team ses code = Inr (py_str (Team (hd (lrows laps))))) \<and>
   (pick_driver ses code = Inr laps \<and> \<not> lap_team_known laps \<and>
    get_driver ses code = Inr (InfoDict d) \<and>
    map_of d ''TeamName'' = Some v \<and> truthy v \<longrightarrow>
      driver_team ses code = Inr (py_str v)) \<and>
   (pick_driver ses code = Inr laps \<and> \<not> lap_team_known laps \<and>
    \<not> (\<exists>d' v'. get_driver ses code = Inr (InfoDict d') \<and>
          map_of d' ''TeamName'' = Some v' \<and> truthy v') \<longrightarrow>
      driver_team ses code = Inr ''Unknown'') \<and>
   (pick_driver ses code = Inr laps \<and> \<not> lap_team_known laps \<and> get_driver ses code = Inl e \<longrightarrow>
      driver_team ses code = Inr ''Unknown'') \<and>
   (pick_driver ses code = Inr laps \<longrightarrow> (\<exists>t. driver_team ses code = Inr t)) \<and>
   (pick_driver ses code = Inl e' \<longrightarrow> driver_team ses code = Inl e') \<and>
   (driver_team ses code = Inl e' \<longrightarrow> pick_driver ses code = Inl e')"
proof (intro conjI impI)
  assume "pick_driver ses code = Inr laps \<and> lap_team_known laps"
  then show "driver_team ses code = Inr (py_str (Team (hd (lrows laps))))"
    by (simp add: driver_team_cases)
next
  assume "pick_driver ses code = Inr laps \<and> \<not> lap_team_known laps \<and>
    get_driver ses code = Inr (InfoDict d) \<and>
    map_of d ''TeamName'' = Some v \<and> truthy v"
  then show "driver_team ses code = Inr (py_str v)"
    by (simp add: driver_team_cases driver_info_team_def)
next
  assume a: "pick_driver ses code = Inr laps \<and> \<not> lap_team_known laps \<and>
    \<not> (\<exists>d' v'. get_driver ses code = Inr (InfoDict d') \<and>
          map_of d' ''TeamName'' = Some v' \<and> truthy v')"
  then have "driver_info_team ses code = Inr None \<or> (\<exists>e. driver_info_team ses code = Inl e)"
    by (cases "get_driver ses code")
       (auto simp: driver_info_team_def split: driver_info.splits option.splits)
  with a show "driver_team ses code = Inr ''Unknown''"
    by (auto simp: driver_team_cases)
next
  assume "pick_driver ses code = Inr laps \<and> \<not> lap_team_known laps \<and> get_driver ses code = Inl e"
  then show "driver_team ses code = Inr ''Unknown''"
    by (simp add: driver_team_cases driver_info_team_def)
next
  assume "pick_driver ses code = Inr laps"
  then show "\<exists>t. driver_team ses code = Inr t"
    by (rule driver_team_returns)
next
  assume "pick_driver ses code = Inl e'"
  then show "driver_team ses code = Inl e'"
    by (simp add: driver_team_def)
next
  assume r: "driver_team ses code = Inl e'"
  show "pick_driver ses code = Inl e'"
  proof (cases "pick_driver ses code")
    case (Inl x)
    with r show ?thesis by (simp add: driver_team_def)
  next
    case (Inr l)
    with r driver_team_returns [OF Inr] show ?thesis by simp
  qed
qed

theorem driver_team_fallback_witness:
  "pick_driver example_session ''44'' \<noteq> Inl ProviderError \<and>
   driver_team example_session ''44'' = Inr ''Mercedes'' \<and>
   pick_driver dict_info_session ''16'' = Inr no_laps \<and>
   \<not> lap_team_known no_laps \<and>
   driver_team dict_info_session ''16'' = Inr ''Ferrari'' \<and>
   pick_driver example_session ''16'' = Inr no_laps \<and>
   get_driver example_session ''16'' = Inl ProviderError \<and>
   driver_team example_session ''16'' = Inr ''Unknown'' \<and>
   pick_driver raising_session ''16'' = Inl ProviderError \<and>
   driver_team raising_session ''16'' = Inl ProviderError"
proof -
  let ?laps = "\<lparr>lcolumns = [''LapNumber'', ''LapTime'', ''Team''],
                 lrows = [\<lparr>LapNumber = LapFloat 1, LapTime = Some ''0 days 00:01:35.123000'',
                           Team = PyStr ''Mercedes''\<rparr>,
                          \<lparr>LapNumber = LapFloat 12, LapTime = None,
                           Team = PyStr ''Mercedes''\<rparr>]\<rparr>"
  have pk: "pick_driver example_session ''44'' = Inr ?laps"
    by (simp add: example_session_def)
  have k: "lap_team_known ?laps"
    by (simp add: lap_team_known_def laps_empty_def)
  have pd: "pick_driver dict_info_session ''16'' = Inr no_laps"
    by (simp add: dict_info_session_def)
  have nk: "\<not> lap_team_known no_laps"
    by (simp add: lap_team_known_def no_laps_def laps_empty_def)
  have g: "get_driver dict_info_session ''16'' = Inr (InfoDict [(''TeamName'', PyStr ''Ferrari'')])"
    by (simp add: dict_info_session_def)
  have m: "map_of [(''TeamName'', PyStr ''Ferrari'')] ''TeamName'' = Some (PyStr ''Ferrari'')"
    "truthy (PyStr ''Ferrari'')"
    by simp_all
  have p2: "pick_driver example_session ''16'' = Inr no_laps"
    by (simp add: example_session_def no_laps_def)
  have g2: "get_driver example_session ''16'' = Inl ProviderError"
    by (simp add: example_session_def)
  have p3: "pick_driver raising_session ''16'' = Inl ProviderError"
    by (simp add: raising_session_def)
  from driver_team_fallback [of example_session "''44''" ?laps] pk k
  have 1: "driver_team example_session ''44'' = Inr ''Mercedes''" by simp
  from driver_team_fallback [of dict_info_session "''16''" no_laps
      "[(''TeamName'', PyStr ''Ferrari'')]" "PyStr ''Ferrari''"] pd nk g m
  have 2: "driver_team dict_info_session ''16'' = Inr ''Ferrari''" by simp
  from driver_team_fallback [of example_session "''16''" no_laps _ _ ProviderError] p2 nk g2
  have 3: "driver_team example_session ''16'' = Inr ''Unknown''" by simp
  from driver_team_fallback [of raising_session "''16''" _ _ _ _ ProviderError] p3
  have 4: "driver_team raising_session ''16'' = Inl ProviderError" by simp
  from pk pd nk 2 p2 g2 3 p3 4 1 show ?thesis by simp
qed

text \<open>
  C6. Each side's colour is the provider's colour of the team when the lookup succeeds;
  when the lookup raises it is the side's own constant, and the two constants differ.
\<close>

theorem color_fallback:
  "(team_color team = Inr c \<longrightarrow>
      color_a team_color team = c \<and> color_b team_color team = c) \<and>
   (team_color team = Inl e \<longrightarrow>
      color_a team_color team = ''#1f77b4'' \<and> color_b team_color team = ''#ff7f0e'') \<and>
   (team_color team = Inl e \<and> team_color team' = Inl e' \<longrightarrow>
      color_a team_color team \<noteq> color_b team_color team')"
  by (simp add: color_a_def color_b_def)

theorem color_fallback_witness:
  "example_team_color ''Mercedes'' = Inr ''#00d2be'' \<and>
   color_a example_team_color ''Mercedes'' = ''#00d2be'' \<and>
   color_b example_team_color ''Mercedes'' = ''#00d2be'' \<and>
   example_team_color ''Unknown'' = Inl KeyError \<and>
   color_a example_team_color ''Unknown'' = ''#1f77b4'' \<and>
   color_b example_team_color ''Unknown'' = ''#ff7f0e'' \<and>
   color_a example_team_color ''Unknown'' \<noteq> color_b example_team_color ''Unknown''"
proof -
  have ok: "example_team_color ''Mercedes'' = Inr ''#00d2be''"
    and bad: "example_team_color ''Unknown'' = Inl KeyError"
    by (simp_all add: example_team_color_def)
  from color_fallback [of example_team_color "''Mercedes''" "''#00d2be''"] ok
  have 1: "color_a example_team_color ''Mercedes'' = ''#00d2be'' \<and>
           color_b example_team_color ''Mercedes'' = ''#00d2be''" by simp
  from color_fallback [of example_team_color "''Unknown''" _ KeyError "''Unknown''" KeyError] bad
  have 2: "color_a example_team_color ''Unknown'' = ''#1f77b4'' \<and>
           color_b example_team_color ''Unknown'' = ''#ff7f0e'' \<and>
           color_a example_team_color ''Unknown'' \<noteq> color_b example_team_color ''Unknown''"
    by simp
  from ok bad 1 2 show ?thesis by blast
qed

section \<open>Frames, columns and panels\<close>

lemma has_col_map_of: "has_col t c \<longleftrightarrow> map_of (cols t) c \<noteq> None"
  by (simp add: has_col_def map_of_eq_None_iff)

lemma getitem_has_col: "has_col t c \<Longrightarrow> \<exists>v. getitem t c = Inr v"
  by (auto simp: has_col_map_of getitem_def)

lemma getitem_Inr_iff: "getitem t c = Inr v \<longleftrightarrow> map_of (cols t) c = Some v"
  by (simp add: getitem_def split: option.splits)

lemma getitem_Inr_has_col: "getitem t c = Inr v \<Longrightarrow> has_col t c"
  by (simp add: getitem_Inr_iff has_col_map_of)

lemma getitem_no_col: "\<not> has_col t c \<Longrightarrow> getitem t c = Inl KeyError"
  by (simp add: has_col_map_of getitem_def)

lemma add_if_col_eq: "add_if_col t c mk ts = Inr (ts @ col_traces t c mk)"
  by (cases "map_of (cols t) c")
     (simp_all add: add_if_col_def col_traces_def has_col_map_of getitem_def)

lemma col_traces_has_col: "col_traces t c mk \<noteq> [] \<longleftrightarrow> has_col t c"
  by (simp add: col_traces_def has_col_map_of split: option.splits)

lemma col_traces_getitem: "getitem t c = Inr y \<Longrightarrow> col_traces t c mk = [mk y]"
  by (simp add: col_traces_def getitem_Inr_iff)

lemma x_axis_total: "\<exists>x. x_axis t = Inr x"
  by (cases "has_col t ''Distance''") (auto simp: x_axis_def dest: getitem_has_col)

lemma speed_fig_eq:
  "speed_fig d1 d2 ca cb ta tb xa xb =
     Inr \<lparr>traces = col_traces ta ''Speed'' (\<lambda>y. Scatter xa y d1 ''lines'' ca None) @
                    col_traces tb ''Speed'' (\<lambda>y. Scatter xb y d2 ''lines'' cb None),
          xaxis_title = ''Distance (m)'', yaxis_title = ''Speed (km/h)'', scaleanchor = None\<rparr>"
  by (simp add: speed_fig_def add_if_col_eq)

lemma throttle_brake_fig_eq:
  "throttle_brake_fig d1 d2 ca cb ta tb xa xb =
     Inr \<lparr>traces =
            col_traces ta ''Throttle'' (\<lambda>y. Scatter xa y (d1 @ '' throttle'') ''lines'' ca None) @
            col_traces ta ''Brake''
              (\<lambda>y. Scatter xa (map (mul_int 100) y) (d1 @ '' brake%'') ''lines'' ca (Some ''dash'')) @
            col_traces tb ''Throttle'' (\<lambda>y. Scatter xb y (d2 @ '' throttle'') ''lines'' cb None) @
            col_traces tb ''Brake''
              (\<lambda>y. Scatter xb (map (mul_int 100) y) (d2 @ '' brake%'') ''lines'' cb (Some ''dash'')),
          xaxis_title = ''Distance (m)'', yaxis_title = ''Input (%)'', scaleanchor = None\<rparr>"
  by (simp add: throttle_brake_fig_def add_if_col_eq)

lemma gear_rpm_fig_eq:
  "gear_rpm_fig d1 d2 ca cb ta tb xa xb =
     Inr \<lparr>traces =
            col_traces ta ''nGear'' (\<lambda>y. Scatter xa y (d1 @ '' gear'') ''lines'' ca None) @
            col_traces tb ''nGear'' (\<lambda>y. Scatter xb y (d2 @ '' gear'') ''lines'' cb None) @
            col_traces ta ''RPM''
              (\<lambda>y. Scatter xa (map (div_int 1000) y) (d1 @ '' RPM x1000'') ''lines'' ca (Some ''dot'')) @
            col_traces tb ''RPM''
              (\<lambda>y. Scatter xb (map (div_int 1000) y) (d2 @ '' RPM x1000'') ''lines'' cb (Some ''dot'')),
          xaxis_title = ''Distance (m)'', yaxis_title = ''Gear / RPM x1000'', scaleanchor = None\<rparr>"
  by (simp add: gear_rpm_fig_def add_if_col_eq)

lemma track_map_eq:
  "track_map d1 d2 ca cb tel_a tel_b =
     (case (map_of (cols tel_a) ''X'', map_of (cols tel_a) ''Y'',
            map_of (cols tel_b) ''X'', map_of (cols tel_b) ''Y'') of
        (Some ax, Some ay, Some bx, Some by) \<Rightarrow>
          Inr (MapChart
            \<lparr>traces = [Scatter (XValues ax) ay d1 ''lines'' ca None,
                       Scatter (XValues bx) by d2 ''lines'' cb None],
             xaxis_title = ''X'', yaxis_title = ''Y'', scaleanchor = Some (''x'', 1)\<rparr>)
      | _ \<Rightarrow> Inr (MapInfo ''Track position data not available for this session or lap.''))"
  by (simp add: track_map_def has_col_map_of getitem_def split: option.splits)

lemma track_map_total: "\<exists>m. track_map d1 d2 ca cb tel_a tel_b = Inr m"
  by (simp add: track_map_eq split: option.splits)

lemma render_panels_eq:
  assumes "align show_delta delta tel_a tel_b = (ta, tb)"
    and "x_axis ta = Inr xa" and "x_axis tb = Inr xb"
    and "driver_team ses d1 = Inr team_a" and "driver_team ses d2 = Inr team_b"
    and "track_map d1 d2 (color_a team_color team_a) (color_b team_color team_b)
           tel_a tel_b = Inr m"
  shows "render_panels ses team_color delta d1 d2 show_delta tel_a tel_b =
     ebind (speed_fig d1 d2 (color_a team_color team_a) (color_b team_color team_b)
              ta tb xa xb) (\<lambda>f1.
     ebind (throttle_brake_fig d1 d2 (color_a team_color team_a) (color_b team_color team_b)
              ta tb xa xb) (\<lambda>f2.
     ebind (gear_rpm_fig d1 d2 (color_a team_color team_a) (color_b team_color team_b)
              ta tb xa xb) (\<lambda>f3.
     Inr \<lparr>fig = f1, fig2 = f2, fig3 = f3, map_fig = m\<rparr>)))"
  using assms by (simp add: render_panels_def Let_def)

text \<open>
  C10. The x axis of a side is the \<^verbatim>\<open>Distance\<close> column of its frame when the frame has
  one and the row index of the frame otherwise; computing it never fails.
\<close>

theorem x_axis_fallback:
  "(has_col t ''Distance'' \<longrightarrow>
      (\<exists>d. getitem t ''Distance'' = Inr d \<and> x_axis t = Inr (XValues d))) \<and>
   (\<not> has_col t ''Distance'' \<longrightarrow> x_axis t = Inr (XIndex (findex t))) \<and>
   (\<exists>x. x_axis t = Inr x)"
  using getitem_has_col [of t "''Distance''"] x_axis_total [of t]
  by (auto simp: x_axis_def)

theorem x_axis_fallback_witness:
  "has_col example_frame ''Distance'' \<and>
   x_axis example_frame = Inr (XValues [CInt 0, CInt 25]) \<and>
   \<not> has_col no_distance_frame ''Distance'' \<and>
   x_axis no_distance_frame = Inr (XIndex [0, 1])"
proof -
  have h: "has_col example_frame ''Distance''"
    and g: "getitem example_frame ''Distance'' = Inr [CInt 0, CInt 25]"
    and n: "\<not> has_col no_distance_frame ''Distance''"
    and i: "findex no_distance_frame = [0, 1]"
    by (simp_all add: has_col_def getitem_def example_frame_def no_distance_frame_def)
  from x_axis_fallback [of example_frame] h g
  have 1: "x_axis example_frame = Inr (XValues [CInt 0, CInt 25])" by auto
  from x_axis_fallback [of no_distance_frame] n i
  have 2: "x_axis no_distance_frame = Inr (XIndex [0, 1])" by simp
  from h 1 n 2 show ?thesis by blast
qed


section \<open>Loading the telemetry of a lap\<close>

lemma set_col_names: "c \<in> set (map fst ps) \<Longrightarrow> map fst (set_col c v ps) = map fst ps"
  by (induction ps) auto

lemma set_col_names_map_of:
  "map_of ps c = Some b \<Longrightarrow> map fst (set_col c v ps) = map fst ps"
  by (rule set_col_names) (metis domI dom_map_of_conv_image_fst set_map)

lemma set_col_length: "c \<in> set (map fst ps) \<Longrightarrow> length (set_col c v ps) = length ps"
  using set_col_names [of c ps v] by (metis length_map)

lemma set_col_other_nth:
  "i < length ps \<Longrightarrow> fst (ps ! i) \<noteq> c \<Longrightarrow> set_col c v ps ! i = ps ! i"
proof (induction ps arbitrary: i)
  case Nil
  then show ?case by simp
next
  case (Cons p ps)
  then show ?case by (cases i) auto
qed

lemma map_of_set_col: "map_of (set_col c v ps) = (map_of ps)(c \<mapsto> v)"
  by (induction ps) (auto simp: fun_eq_iff)

lemma astype_int_col_length: "astype_int_col b = Inr b' \<Longrightarrow> length b' = length b"
  by (induction b arbitrary: b') (auto simp: ebind_eq_Inr)

lemma astype_int_col_bool:
  "\<forall>c \<in> set b. is_bool_cell c \<Longrightarrow>
   astype_int_col b = Inr (map (\<lambda>c. CInt (if c = CBool True then 1 else 0)) b)"
proof (induction b)
  case Nil
  then show ?case by simp
next
  case (Cons c b)
  then show ?case by (cases c) auto
qed

lemma astype_int_col_int:
  "\<forall>c \<in> set b. is_int_cell c \<Longrightarrow> astype_int_col b = Inr b"
proof (induction b)
  case Nil
  then show ?case by simp
next
  case (Cons c b)
  then show ?case by (cases c) auto
qed

lemma astype_int_col_nth:
  "astype_int_col b = Inr b' \<Longrightarrow> i < length b \<Longrightarrow> astype_int (b ! i) = Inr (b' ! i)"
proof (induction b arbitrary: b' i)
  case Nil
  then show ?case by simp
next
  case (Cons c b)
  then show ?case by (cases i) (auto simp: ebind_eq_Inr)
qed

lemma load_lap_telemetry_cases:
  assumes "get_telemetry lp = Inr raw"
  shows "load_lap_telemetry ses lp =
     (case map_of (cols raw) ''Brake'' of
        None \<Rightarrow> Inr (reset_index raw)
      | Some b \<Rightarrow> ebind (astype_int_col b) (\<lambda>b'. Inr (setitem (reset_index raw) ''Brake'' b')))"
  using assms
  by (simp add: load_lap_telemetry_def Let_def has_col_map_of getitem_def reset_index_def
      split: option.splits)

lemma load_lap_telemetry_Inr:
  assumes "get_telemetry lp = Inr raw" and "load_lap_telemetry ses lp = Inr tel"
  shows "findex tel = map int [0 ..< length (findex raw)]"
    and "map fst (cols tel) = map fst (cols raw)"
    and "length (cols tel) = length (cols raw)"
    and "i < length (cols raw) \<Longrightarrow> fst (cols raw ! i) \<noteq> ''Brake'' \<Longrightarrow> cols tel ! i = cols raw ! i"
    and "c \<noteq> ''Brake'' \<Longrightarrow> getitem tel c = getitem raw c"
proof -
  show "findex tel = map int [0 ..< length (findex raw)]"
    using assms
    by (auto simp: load_lap_telemetry_cases ebind_eq_Inr reset_index_def setitem_def
        split: option.splits)
  show n: "map fst (cols tel) = map fst (cols raw)"
    using assms
    by (auto simp: load_lap_telemetry_cases ebind_eq_Inr reset_index_def setitem_def
        set_col_names_map_of split: option.splits)
  then show "length (cols tel) = length (cols raw)"
    by (metis length_map)
  show "cols tel ! i = cols raw ! i" if "i < length (cols raw)" "fst (cols raw ! i) \<noteq> ''Brake''"
    using assms that
    by (auto simp: load_lap_telemetry_cases ebind_eq_Inr reset_index_def setitem_def
        set_col_other_nth split: option.splits)
  show "getitem tel c = getitem raw c" if "c \<noteq> ''Brake''"
    using assms that
    by (auto simp: load_lap_telemetry_cases ebind_eq_Inr reset_index_def setitem_def
        map_of_set_col getitem_def split: option.splits)
qed

lemma load_example_lap: "load_lap_telemetry ses example_lap = Inr loaded_example_frame"
  by (simp add: load_lap_telemetry_def example_lap_def example_frame_def loaded_example_frame_def
      reset_index_def has_col_def getitem_def setitem_def Let_def upt_rec)

text \<open>
  C3. With alignment asked for and the provider's call raising, both sides are the
  unaligned frames themselves, and so are they when alignment is not asked for. A loaded
  frame is not empty when the provider's frame of the lap is not empty.
\<close>

theorem alignment_fallback:
  "(show_delta \<and> delta = Inl e \<longrightarrow> align show_delta delta tel_a tel_b = (tel_a, tel_b)) \<and>
   (\<not> show_delta \<longrightarrow> align show_delta delta tel_a tel_b = (tel_a, tel_b)) \<and>
   (get_telemetry lp = Inr raw \<and> load_lap_telemetry ses lp = Inr tel \<and> \<not> frame_empty raw \<longrightarrow>
      \<not> frame_empty tel)"
proof (intro conjI impI)
  assume "show_delta \<and> delta = Inl e"
  then show "align show_delta delta tel_a tel_b = (tel_a, tel_b)"
    by (simp add: align_def)
next
  assume "\<not> show_delta"
  then show "align show_delta delta tel_a tel_b = (tel_a, tel_b)"
    by (simp add: align_def)
next
  assume a: "get_telemetry lp = Inr raw \<and> load_lap_telemetry ses lp = Inr tel \<and> \<not> frame_empty raw"
  then have "findex tel = map int [0 ..< length (findex raw)]"
    and "length (cols tel) = length (cols raw)"
    using load_lap_telemetry_Inr(1,3) by blast+
  with a show "\<not> frame_empty tel"
    by (auto simp: frame_empty_def)
qed

theorem alignment_fallback_witness:
  "align True (Inl ProviderError) loaded_example_frame no_distance_frame =
     (loaded_example_frame, no_distance_frame) \<and>
   align False (Inr ([], no_distance_frame, no_distance_frame)) loaded_example_frame no_distance_frame =
     (loaded_example_frame, no_distance_frame) \<and>
   get_telemetry example_lap = Inr example_frame \<and>
   load_lap_telemetry example_session example_lap = Inr loaded_example_frame \<and>
   \<not> frame_empty example_frame \<and> \<not> frame_empty loaded_example_frame"
proof -
  have g: "get_telemetry example_lap = Inr example_frame"
    by (simp add: example_lap_def)
  have ne: "\<not> frame_empty example_frame"
    by (simp add: frame_empty_def example_frame_def)
  note l = load_example_lap [of example_session]
  from alignment_fallback [of True "Inl ProviderError" ProviderError loaded_example_frame
      no_distance_frame]
  have 1: "align True (Inl ProviderError) loaded_example_frame no_distance_frame =
     (loaded_example_frame, no_distance_frame)" by simp
  from alignment_fallback [of False "Inr ([], no_distance_frame, no_distance_frame)" _
      loaded_example_frame no_distance_frame]
  have 2: "align False (Inr ([], no_distance_frame, no_distance_frame)) loaded_example_frame
      no_distance_frame = (loaded_example_frame, no_distance_frame)" by simp
  from alignment_fallback [of _ _ _ _ _ example_lap example_frame example_session
      loaded_example_frame] g l ne
  have 3: "\<not> frame_empty loaded_example_frame" by simp
  from 1 2 g l ne 3 show ?thesis by blast
qed

text \<open>
  C4, as stated, fails: a brake channel that the provider gives as a percentage keeps
  its values through \<^verbatim>\<open>astype(int)\<close>, here the value 100.
\<close>

theorem brake_percent_counterexample:
  "get_telemetry percent_brake_lap = Inr percent_brake_frame \<and>
   has_col percent_brake_frame ''Brake'' \<and>
   load_lap_telemetry example_session percent_brake_lap = Inr percent_brake_frame \<and>
   getitem percent_brake_frame ''Brake'' = Inr [CInt 100] \<and>
   CInt 100 \<noteq> CInt 0 \<and> CInt 100 \<noteq> CInt 1"
  by (simp add: load_lap_telemetry_def percent_brake_lap_def percent_brake_frame_def
      reset_index_def has_col_def getitem_def setitem_def Let_def)

text \<open>
  C4, amended. The brake column of a loaded frame holds, row by row, what
  \<^verbatim>\<open>astype(int)\<close> makes of the provider's cell. When the brake channel of the
  provider's frame is boolean, that is 1 for true and 0 for false, so each value is 0 or
  1. When the channel holds integers, the column is returned as it is, so a value other
  than 0 and 1 stays.
\<close>

theorem brake_coercion:
  assumes "get_telemetry lp = Inr raw"
    and "getitem raw ''Brake'' = Inr b"
    and "load_lap_telemetry ses lp = Inr tel"
  shows "(\<exists>b'. getitem tel ''Brake'' = Inr b' \<and> length b' = length b \<and>
            (\<forall>i < length b. astype_int (b ! i) = Inr (b' ! i))) \<and>
         ((\<forall>c \<in> set b. is_bool_cell c) \<longrightarrow>
            getitem tel ''Brake'' = Inr (map (\<lambda>c. CInt (if c = CBool True then 1 else 0)) b) \<and>
            (\<forall>b'. getitem tel ''Brake'' = Inr b' \<longrightarrow> (\<forall>v \<in> set b'. v = CInt 0 \<or> v = CInt 1))) \<and>
         ((\<forall>c \<in> set b. is_int_cell c) \<longrightarrow> getitem tel ''Brake'' = Inr b)"
proof -
  have m: "map_of (cols raw) ''Brake'' = Some b"
    using assms(2) by (simp add: getitem_Inr_iff)
  from assms(3) obtain b' where c: "astype_int_col b = Inr b'"
    and t: "tel = setitem (reset_index raw) ''Brake'' b'"
    by (auto simp: load_lap_telemetry_cases [OF assms(1)] m ebind_eq_Inr)
  have g: "getitem tel ''Brake'' = Inr b'"
    by (simp add: t getitem_def setitem_def map_of_set_col)
  have 1: "\<exists>b'. getitem tel ''Brake'' = Inr b' \<and> length b' = length b \<and>
            (\<forall>i < length b. astype_int (b ! i) = Inr (b' ! i))"
    using g c astype_int_col_length [OF c] astype_int_col_nth [OF c] by blast
  have 2: "getitem tel ''Brake'' = Inr (map (\<lambda>c. CInt (if c = CBool True then 1 else 0)) b) \<and>
            (\<forall>b'. getitem tel ''Brake'' = Inr b' \<longrightarrow> (\<forall>v \<in> set b'. v = CInt 0 \<or> v = CInt 1))"
    if "\<forall>c \<in> set b. is_bool_cell c"
    using astype_int_col_bool [OF that] c g by auto
  have 3: "getitem tel ''Brake'' = Inr b" if "\<forall>c \<in> set b. is_int_cell c"
    using astype_int_col_int [OF that] c g by simp
  from 1 2 3 show ?thesis by blast
qed

theorem brake_coercion_witness:
  "get_telemetry example_lap = Inr example_frame \<and>
   getitem example_frame ''Brake'' = Inr [CBool False, CBool True] \<and>
   is_bool_cell (CBool False) \<and> is_bool_cell (CBool True) \<and>
   load_lap_telemetry example_session example_lap = Inr loaded_example_frame \<and>
   getitem loaded_example_frame ''Brake'' = Inr [CInt 0, CInt 1] \<and>
   get_telemetry percent_brake_lap = Inr percent_brake_frame \<and>
   getitem percent_brake_frame ''Brake'' = Inr [CInt 100] \<and>
   is_int_cell (CInt 100) \<and>
   load_lap_telemetry example_session percent_brake_lap = Inr percent_brake_frame"
proof -
  have g: "get_telemetry example_lap = Inr example_frame"
    by (simp add: example_lap_def)
  have b: "getitem example_frame ''Brake'' = Inr [CBool False, CBool True]"
    by (simp add: getitem_def example_frame_def)
  note l = load_example_lap [of example_session]
  have g2: "get_telemetry percent_brake_lap = Inr percent_brake_frame"
    by (simp add: percent_brake_lap_def)
  have b2: "getitem percent_brake_frame ''Brake'' = Inr [CInt 100]"
    by (simp add: getitem_def percent_brake_frame_def)
  have l2: "load_lap_telemetry example_session percent_brake_lap = Inr percent_brake_frame"
    by (simp add: load_lap_telemetry_def percent_brake_lap_def percent_brake_frame_def
        reset_index_def has_col_def getitem_def setitem_def Let_def)
  from brake_coercion [OF g b l]
  have 1: "getitem loaded_example_frame ''Brake'' = Inr [CInt 0, CInt 1]" by simp
  from brake_coercion [OF g2 b2 l2]
  have 2: "getitem percent_brake_frame ''Brake'' = Inr [CInt 100]" by simp
  from g b l 1 g2 b2 l2 show ?thesis by simp
qed

text \<open>
  C8. The loaded frame has the columns of the provider's frame, under the same names
  and in the same order, and every column that is not the brake column is the
  provider's column, cell by cell.
\<close>

theorem load_keeps_other_columns:
  assumes "get_telemetry lp = Inr raw" and "load_lap_telemetry ses lp = Inr tel"
  shows "length (cols tel) = length (cols raw) \<and>
         (\<forall>i < length (cols raw).
            fst (cols tel ! i) = fst (cols raw ! i) \<and>
            (fst (cols raw ! i) \<noteq> ''Brake'' \<longrightarrow> cols tel ! i = cols raw ! i)) \<and>
         (\<forall>c. c \<noteq> ''Brake'' \<longrightarrow> getitem tel c = getitem raw c)"
proof -
  note l = load_lap_telemetry_Inr [OF assms]
  have "fst (cols tel ! i) = fst (cols raw ! i)" if "i < length (cols raw)" for i
    using l(2,3) that by (metis nth_map)
  with l(3,4,5) show ?thesis by simp
qed

theorem load_keeps_other_columns_witness:
  "get_telemetry example_lap = Inr example_frame \<and>
   load_lap_telemetry example_session example_lap = Inr loaded_example_frame \<and>
   length (cols loaded_example_frame) = length (cols example_frame) \<and>
   cols loaded_example_frame ! 1 = cols example_frame ! 1 \<and>
   getitem loaded_example_frame ''RPM'' = getitem example_frame ''RPM''"
proof -
  have g: "get_telemetry example_lap = Inr example_frame"
    by (simp add: example_lap_def)
  note l = load_example_lap [of example_session]
  note k = load_keeps_other_columns [OF g l]
  have i: "1 < length (cols example_frame)" "fst (cols example_frame ! 1) \<noteq> ''Brake''"
    by (simp_all add: example_frame_def)
  from k i have "cols loaded_example_frame ! 1 = cols example_frame ! 1"
    by blast
  moreover from k have "getitem loaded_example_frame ''RPM'' = getitem example_frame ''RPM''"
    by simp
  ultimately show ?thesis using g l k by blast
qed

section \<open>The render pass\<close>

lemma render_panels_figs:
  assumes "align show_delta delta tel_a tel_b = (ta, tb)"
    and "x_axis ta = Inr xa" and "x_axis tb = Inr xb"
    and "driver_team ses d1 = Inr team_a" and "driver_team ses d2 = Inr team_b"
    and "ca = color_a team_color team_a"
    and "cb = color_b team_color team_b"
  shows "\<exists>f1 f2 f3 m.
     speed_fig d1 d2 ca cb ta tb xa xb = Inr f1 \<and>
     throttle_brake_fig d1 d2 ca cb ta tb xa xb = Inr f2 \<and>
     gear_rpm_fig d1 d2 ca cb ta tb xa xb = Inr f3 \<and>
     track_map d1 d2 ca cb tel_a tel_b = Inr m \<and>
     render_panels ses team_color delta d1 d2 show_delta tel_a tel_b =
       Inr \<lparr>fig = f1, fig2 = f2, fig3 = f3, map_fig = m\<rparr>"
proof -
  obtain m where m: "track_map d1 d2 ca cb tel_a tel_b = Inr m"
    using track_map_total by blast
  obtain f1 where f1: "speed_fig d1 d2 ca cb ta tb xa xb = Inr f1"
    by (simp add: speed_fig_eq)
  obtain f2 where f2: "throttle_brake_fig d1 d2 ca cb ta tb xa xb = Inr f2"
    by (simp add: throttle_brake_fig_eq)
  obtain f3 where f3: "gear_rpm_fig d1 d2 ca cb ta tb xa xb = Inr f3"
    by (simp add: gear_rpm_fig_eq)
  have "render_panels ses team_color delta d1 d2 show_delta tel_a tel_b =
       Inr \<lparr>fig = f1, fig2 = f2, fig3 = f3, map_fig = m\<rparr>"
    using render_panels_eq [OF assms(1-5) m [unfolded assms(6,7)]] f1 f2 f3
    by (simp add: assms(6,7))
  with m f1 f2 f3 show ?thesis by blast
qed

lemma map_traces_track_map:
  "track_map d1 d2 ca cb tel_a tel_b = Inr m \<Longrightarrow>
   (map_traces m \<noteq> [] \<longleftrightarrow> has_xy tel_a \<and> has_xy tel_b)"
  by (auto simp: track_map_eq has_xy_def has_col_map_of split: option.splits)


lemma render_panels_teams:
  assumes "render_panels ses team_color delta d1 d2 show_delta tel_a tel_b = Inr p"
  shows "\<exists>team_a team_b. driver_team ses d1 = Inr team_a \<and> driver_team ses d2 = Inr team_b"
proof -
  obtain ta tb where al: "align show_delta delta tel_a tel_b = (ta, tb)"
    by (cases "align show_delta delta tel_a tel_b") auto
  from assms show ?thesis
    by (auto simp: render_panels_def al ebind_eq_Inr)
qed

lemma render_panels_map_fig:
  assumes "render_panels ses team_color delta d1 d2 show_delta tel_a tel_b = Inr p"
    and "driver_team ses d1 = Inr team_a" and "driver_team ses d2 = Inr team_b"
  shows "track_map d1 d2 (color_a team_color team_a) (color_b team_color team_b)
           tel_a tel_b = Inr (map_fig p)"
proof -
  obtain ta tb where al: "align show_delta delta tel_a tel_b = (ta, tb)"
    by (cases "align show_delta delta tel_a tel_b") auto
  obtain xa xb where x: "x_axis ta = Inr xa" "x_axis tb = Inr xb"
    using x_axis_total by blast
  obtain m where m: "track_map d1 d2 (color_a team_color team_a) (color_b team_color team_b)
           tel_a tel_b = Inr m"
    using track_map_total by blast
  from assms(1) show ?thesis
    unfolding render_panels_eq [OF al x assms(2,3) m]
    by (auto simp: ebind_eq_Inr m)
qed

lemma render_panels_traces:
  assumes "align show_delta delta tel_a tel_b = (ta, tb)"
    and "x_axis ta = Inr xa" and "x_axis tb = Inr xb"
    and "driver_team ses d1 = Inr team_a" and "driver_team ses d2 = Inr team_b"
    and "ca = color_a team_color team_a"
    and "cb = color_b team_color team_b"
  shows "\<exists>p. render_panels ses team_color delta d1 d2 show_delta tel_a tel_b = Inr p \<and>
     traces (fig p) =
       col_traces ta ''Speed'' (\<lambda>y. Scatter xa y d1 ''lines'' ca None) @
       col_traces tb ''Speed'' (\<lambda>y. Scatter xb y d2 ''lines'' cb None) \<and>
     traces (fig2 p) =
       col_traces ta ''Throttle'' (\<lambda>y. Scatter xa y (d1 @ '' throttle'') ''lines'' ca None) @
       col_traces ta ''Brake''
         (\<lambda>y. Scatter xa (map (mul_int 100) y) (d1 @ '' brake%'') ''lines'' ca (Some ''dash'')) @
       col_traces tb ''Throttle'' (\<lambda>y. Scatter xb y (d2 @ '' throttle'') ''lines'' cb None) @
       col_traces tb ''Brake''
         (\<lambda>y. Scatter xb (map (mul_int 100) y) (d2 @ '' brake%'') ''lines'' cb (Some ''dash'')) \<and>
     traces (fig3 p) =
       col_traces ta ''nGear'' (\<lambda>y. Scatter xa y (d1 @ '' gear'') ''lines'' ca None) @
       col_traces tb ''nGear'' (\<lambda>y. Scatter xb y (d2 @ '' gear'') ''lines'' cb None) @
       col_traces ta ''RPM''
         (\<lambda>y. Scatter xa (map (div_int 1000) y) (d1 @ '' RPM x1000'') ''lines'' ca (Some ''dot'')) @
       col_traces tb ''RPM''
         (\<lambda>y. Scatter xb (map (div_int 1000) y) (d2 @ '' RPM x1000'') ''lines'' cb (Some ''dot''))"
proof -
  from render_panels_figs [OF assms] obtain f1 f2 f3 m where
    f: "speed_fig d1 d2 ca cb ta tb xa xb = Inr f1"
      "throttle_brake_fig d1 d2 ca cb ta tb xa xb = Inr f2"
      "gear_rpm_fig d1 d2 ca cb ta tb xa xb = Inr f3"
    and r: "render_panels ses team_color delta d1 d2 show_delta tel_a tel_b =
       Inr \<lparr>fig = f1, fig2 = f2, fig3 = f3, map_fig = m\<rparr>"
    by blast
  from f(1) have 1: "traces f1 =
       col_traces ta ''Speed'' (\<lambda>y. Scatter xa y d1 ''lines'' ca None) @
       col_traces tb ''Speed'' (\<lambda>y. Scatter xb y d2 ''lines'' cb None)"
    unfolding speed_fig_eq by auto
  from f(2) have 2: "traces f2 =
       col_traces ta ''Throttle'' (\<lambda>y. Scatter xa y (d1 @ '' throttle'') ''lines'' ca None) @
       col_traces ta ''Brake''
         (\<lambda>y. Scatter xa (map (mul_int 100) y) (d1 @ '' brake%'') ''lines'' ca (Some ''dash'')) @
       col_traces tb ''Throttle'' (\<lambda>y. Scatter xb y (d2 @ '' throttle'') ''lines'' cb None) @
       col_traces tb ''Brake''
         (\<lambda>y. Scatter xb (map (mul_int 100) y) (d2 @ '' brake%'') ''lines'' cb (Some ''dash''))"
    unfolding throttle_brake_fig_eq by auto
  from f(3) have 3: "traces f3 =
       col_traces ta ''nGear'' (\<lambda>y. Scatter xa y (d1 @ '' gear'') ''lines'' ca None) @
       col_traces tb ''nGear'' (\<lambda>y. Scatter xb y (d2 @ '' gear'') ''lines'' cb None) @
       col_traces ta ''RPM''
         (\<lambda>y. Scatter xa (map (div_int 1000) y) (d1 @ '' RPM x1000'') ''lines'' ca (Some ''dot'')) @
       col_traces tb ''RPM''
         (\<lambda>y. Scatter xb (map (div_int 1000) y) (d2 @ '' RPM x1000'') ''lines'' cb (Some ''dot''))"
    unfolding gear_rpm_fig_eq by auto
  show ?thesis
    by (rule exI [of _ "\<lparr>fig = f1, fig2 = f2, fig3 = f3, map_fig = m\<rparr>"]) (simp add: r 1 2 3)
qed

lemma render_pass_loaded:
  "load_lap_telemetry ses lap_a = Inr tel_a \<Longrightarrow> load_lap_telemetry ses lap_b = Inr tel_b \<Longrightarrow>
   render_pass ses team_color delta d1 d2 show_delta lap_a lap_b =
     render_panels ses team_color delta d1 d2 show_delta tel_a tel_b"
  by (simp add: render_pass_def)

lemma example_teams:
  "driver_team example_session ''44'' = Inr ''Mercedes''"
  "driver_team example_session ''16'' = Inr ''Unknown''"
  by (simp_all add: driver_team_def lap_team_known_def laps_empty_def example_session_def
      driver_info_team_def)

lemma example_colors:
  "''#00d2be'' = color_a example_team_color ''Mercedes''"
  "''#ff7f0e'' = color_b example_team_color ''Unknown''"
  by (simp_all add: color_a_def color_b_def example_team_color_def)

lemma col_traces_mem:
  "t \<in> set (col_traces fr c mk) \<Longrightarrow> \<exists>y. getitem fr c = Inr y \<and> t = mk y"
  by (cases "map_of (cols fr) c") (simp_all add: col_traces_def getitem_Inr_iff)

lemma mul_100_bool_like:
  "is_bool_cell c \<or> c = CInt 0 \<or> c = CInt 1 \<Longrightarrow> mul_int 100 c = CInt 0 \<or> mul_int 100 c = CInt 100"
  by (cases c) auto

text \<open>
  C5, as stated, fails: the track map tests that the position columns are there, not
  what they hold. Two frames whose position columns hold only missing values still give
  the chart with its two traces.
\<close>

theorem track_map_null_columns_counterexample:
  "has_col null_position_frame ''X'' \<and> has_col null_position_frame ''Y'' \<and>
   getitem null_position_frame ''X'' = Inr [CNull] \<and>
   getitem null_position_frame ''Y'' = Inr [CNull] \<and>
   track_map ''44'' ''16'' ''#1f77b4'' ''#ff7f0e'' null_position_frame null_position_frame =
     Inr (MapChart
       \<lparr>traces = [Scatter (XValues [CNull]) [CNull] ''44'' ''lines'' ''#1f77b4'' None,
                  Scatter (XValues [CNull]) [CNull] ''16'' ''lines'' ''#ff7f0e'' None],
        xaxis_title = ''X'', yaxis_title = ''Y'', scaleanchor = Some (''x'', 1)\<rparr>)"
  by (simp add: track_map_def null_position_frame_def has_col_def getitem_def)

text \<open>
  C5, amended. The track map is the chart with exactly two position traces, taken from
  the two loaded (unaligned) frames, when both frames have an \<^verbatim>\<open>X\<close> and a \<^verbatim>\<open>Y\<close>
  column; in every other case it is the message and has no trace. The map panel of a
  render pass is the track map of the two unaligned frames, whatever the alignment gave.
\<close>

theorem track_map_iff_columns:
  "(has_xy tel_a \<and> has_xy tel_b \<longrightarrow>
      (\<exists>ax ay bx by.
         getitem tel_a ''X'' = Inr ax \<and> getitem tel_a ''Y'' = Inr ay \<and>
         getitem tel_b ''X'' = Inr bx \<and> getitem tel_b ''Y'' = Inr by \<and>
         track_map d1 d2 ca cb tel_a tel_b =
           Inr (MapChart
             \<lparr>traces = [Scatter (XValues ax) ay d1 ''lines'' ca None,
                        Scatter (XValues bx) by d2 ''lines'' cb None],
              xaxis_title = ''X'', yaxis_title = ''Y'', scaleanchor = Some (''x'', 1)\<rparr>))) \<and>
   (\<not> (has_xy tel_a \<and> has_xy tel_b) \<longrightarrow>
      track_map d1 d2 ca cb tel_a tel_b =
        Inr (MapInfo ''Track position data not available for this session or lap.'')) \<and>
   (\<forall>m. track_map d1 d2 ca cb tel_a tel_b = Inr m \<longrightarrow>
      (map_traces m \<noteq> [] \<longleftrightarrow> has_xy tel_a \<and> has_xy tel_b)) \<and>
   (\<forall>p. render_panels ses team_color delta d1 d2 show_delta tel_a tel_b = Inr p \<longrightarrow>
      (\<exists>team_a team_b.
         driver_team ses d1 = Inr team_a \<and> driver_team ses d2 = Inr team_b \<and>
         track_map d1 d2 (color_a team_color team_a) (color_b team_color team_b)
           tel_a tel_b = Inr (map_fig p)))"
proof (intro conjI impI allI)
  assume "has_xy tel_a \<and> has_xy tel_b"
  then show "\<exists>ax ay bx by.
         getitem tel_a ''X'' = Inr ax \<and> getitem tel_a ''Y'' = Inr ay \<and>
         getitem tel_b ''X'' = Inr bx \<and> getitem tel_b ''Y'' = Inr by \<and>
         track_map d1 d2 ca cb tel_a tel_b =
           Inr (MapChart
             \<lparr>traces = [Scatter (XValues ax) ay d1 ''lines'' ca None,
                        Scatter (XValues bx) by d2 ''lines'' cb None],
              xaxis_title = ''X'', yaxis_title = ''Y'', scaleanchor = Some (''x'', 1)\<rparr>)"
    by (auto simp: has_xy_def has_col_map_of track_map_eq getitem_Inr_iff)
next
  assume "\<not> (has_xy tel_a \<and> has_xy tel_b)"
  then show "track_map d1 d2 ca cb tel_a tel_b =
        Inr (MapInfo ''Track position data not available for this session or lap.'')"
    by (auto simp: has_xy_def has_col_map_of track_map_eq split: option.splits)
next
  fix m
  assume "track_map d1 d2 ca cb tel_a tel_b = Inr m"
  then show "(map_traces m \<noteq> []) = (has_xy tel_a \<and> has_xy tel_b)"
    by (rule map_traces_track_map)
next
  fix p
  assume r: "render_panels ses team_color delta d1 d2 show_delta tel_a tel_b = Inr p"
  then obtain team_a team_b where
    t: "driver_team ses d1 = Inr team_a" "driver_team ses d2 = Inr team_b"
    using render_panels_teams by blast
  with render_panels_map_fig [OF r t]
  show "\<exists>team_a team_b.
         driver_team ses d1 = Inr team_a \<and> driver_team ses d2 = Inr team_b \<and>
         track_map d1 d2 (color_a team_color team_a) (color_b team_color team_b)
           tel_a tel_b = Inr (map_fig p)"
    by blast
qed

theorem track_map_iff_columns_witness:
  "has_xy loaded_example_frame \<and>
   map_traces (MapChart
       \<lparr>traces = [Scatter (XValues [CInt (-120), CInt (-95)]) [CInt 300, CInt 310]
                    ''44'' ''lines'' ''#00d2be'' None,
                  Scatter (XValues [CInt (-120), CInt (-95)]) [CInt 300, CInt 310]
                    ''16'' ''lines'' ''#ff7f0e'' None],
        xaxis_title = ''X'', yaxis_title = ''Y'', scaleanchor = Some (''x'', 1)\<rparr>) \<noteq> [] \<and>
   track_map ''44'' ''16'' ''#00d2be'' ''#ff7f0e'' loaded_example_frame loaded_example_frame =
     Inr (MapChart
       \<lparr>traces = [Scatter (XValues [CInt (-120), CInt (-95)]) [CInt 300, CInt 310]
                    ''44'' ''lines'' ''#00d2be'' None,
                  Scatter (XValues [CInt (-120), CInt (-95)]) [CInt 300, CInt 310]
                    ''16'' ''lines'' ''#ff7f0e'' None],
        xaxis_title = ''X'', yaxis_title = ''Y'', scaleanchor = Some (''x'', 1)\<rparr>) \<and>
   \<not> has_xy no_distance_frame \<and>
   track_map ''44'' ''16'' ''#00d2be'' ''#ff7f0e'' loaded_example_frame no_distance_frame =
     Inr (MapInfo ''Track position data not available for this session or lap.'')"
proof -
  have h: "has_xy loaded_example_frame" and n: "\<not> has_xy no_distance_frame"
    by (simp_all add: has_xy_def has_col_def loaded_example_frame_def no_distance_frame_def)
  have g: "getitem loaded_example_frame ''X'' = Inr [CInt (-120), CInt (-95)]"
    "getitem loaded_example_frame ''Y'' = Inr [CInt 300, CInt 310]"
    by (simp_all add: getitem_def loaded_example_frame_def)
  from track_map_iff_columns [of loaded_example_frame loaded_example_frame "''44''" "''16''"
      "''#00d2be''" "''#ff7f0e''"] h g
  have 1: "track_map ''44'' ''16'' ''#00d2be'' ''#ff7f0e'' loaded_example_frame loaded_example_frame =
     Inr (MapChart
       \<lparr>traces = [Scatter (XValues [CInt (-120), CInt (-95)]) [CInt 300, CInt 310]
                    ''44'' ''lines'' ''#00d2be'' None,
                  Scatter (XValues [CInt (-120), CInt (-95)]) [CInt 300, CInt 310]
                    ''16'' ''lines'' ''#ff7f0e'' None],
        xaxis_title = ''X'', yaxis_title = ''Y'', scaleanchor = Some (''x'', 1)\<rparr>)"
    by auto
  from track_map_iff_columns [of loaded_example_frame no_distance_frame "''44''" "''16''"
      "''#00d2be''" "''#ff7f0e''"] n
  have 2: "track_map ''44'' ''16'' ''#00d2be'' ''#ff7f0e'' loaded_example_frame no_distance_frame =
     Inr (MapInfo ''Track position data not available for this session or lap.'')"
    by blast
  from h n 1 2 show ?thesis by simp
qed



lemma render_panels_returns:
  assumes "align show_delta delta tel_a tel_b = (ta, tb)"
    and "driver_team ses d1 = Inr team_a" and "driver_team ses d2 = Inr team_b"
    and "ca = color_a team_color team_a"
    and "cb = color_b team_color team_b"
  shows "(\<exists>p xa xb. x_axis ta = Inr xa \<and> x_axis tb = Inr xb \<and>
     render_panels ses team_color delta d1 d2 show_delta tel_a tel_b = Inr p \<and>
     (load_lap_telemetry ses lap_a = Inr tel_a \<and> load_lap_telemetry ses lap_b = Inr tel_b \<longrightarrow>
        render_pass ses team_color delta d1 d2 show_delta lap_a lap_b = Inr p) \<and>
     traces (fig p) =
       col_traces ta ''Speed'' (\<lambda>y. Scatter xa y d1 ''lines'' ca None) @
       col_traces tb ''Speed'' (\<lambda>y. Scatter xb y d2 ''lines'' cb None) \<and>
     traces (fig2 p) =
       col_traces ta ''Throttle'' (\<lambda>y. Scatter xa y (d1 @ '' throttle'') ''lines'' ca None) @
       col_traces ta ''Brake''
         (\<lambda>y. Scatter xa (map (mul_int 100) y) (d1 @ '' brake%'') ''lines'' ca (Some ''dash'')) @
       col_traces tb ''Throttle'' (\<lambda>y. Scatter xb y (d2 @ '' throttle'') ''lines'' cb None) @
       col_traces tb ''Brake''
         (\<lambda>y. Scatter xb (map (mul_int 100) y) (d2 @ '' brake%'') ''lines'' cb (Some ''dash'')) \<and>
     traces (fig3 p) =
       col_traces ta ''nGear'' (\<lambda>y. Scatter xa y (d1 @ '' gear'') ''lines'' ca None) @
       col_traces tb ''nGear'' (\<lambda>y. Scatter xb y (d2 @ '' gear'') ''lines'' cb None) @
       col_traces ta ''RPM''
         (\<lambda>y. Scatter xa (map (div_int 1000) y) (d1 @ '' RPM x1000'') ''lines'' ca (Some ''dot'')) @
       col_traces tb ''RPM''
         (\<lambda>y. Scatter xb (map (div_int 1000) y) (d2 @ '' RPM x1000'') ''lines'' cb (Some ''dot'')) \<and>
     (map_traces (map_fig p) \<noteq> [] \<longleftrightarrow> has_xy tel_a \<and> has_xy tel_b)) \<and>
   (\<forall>t c mk. (col_traces t c mk \<noteq> [] \<longleftrightarrow> has_col t c) \<and>
      (\<forall>y. getitem t c = Inr y \<longrightarrow> col_traces t c mk = [mk y]))"
proof -
  obtain xa xb where x: "x_axis ta = Inr xa" "x_axis tb = Inr xb"
    using x_axis_total by blast
  from render_panels_traces [OF assms(1) x assms(2-5)] obtain p where
    p: "render_panels ses team_color delta d1 d2 show_delta tel_a tel_b = Inr p"
    and t: "traces (fig p) =
       col_traces ta ''Speed'' (\<lambda>y. Scatter xa y d1 ''lines'' ca None) @
       col_traces tb ''Speed'' (\<lambda>y. Scatter xb y d2 ''lines'' cb None)"
     "traces (fig2 p) =
       col_traces ta ''Throttle'' (\<lambda>y. Scatter xa y (d1 @ '' throttle'') ''lines'' ca None) @
       col_traces ta ''Brake''
         (\<lambda>y. Scatter xa (map (mul_int 100) y) (d1 @ '' brake%'') ''lines'' ca (Some ''dash'')) @
       col_traces tb ''Throttle'' (\<lambda>y. Scatter xb y (d2 @ '' throttle'') ''lines'' cb None) @
       col_traces tb ''Brake''
         (\<lambda>y. Scatter xb (map (mul_int 100) y) (d2 @ '' brake%'') ''lines'' cb (Some ''dash''))"
     "traces (fig3 p) =
       col_traces ta ''nGear'' (\<lambda>y. Scatter xa y (d1 @ '' gear'') ''lines'' ca None) @
       col_traces tb ''nGear'' (\<lambda>y. Scatter xb y (d2 @ '' gear'') ''lines'' cb None) @
       col_traces ta ''RPM''
         (\<lambda>y. Scatter xa (map (div_int 1000) y) (d1 @ '' RPM x1000'') ''lines'' ca (Some ''dot'')) @
       col_traces tb ''RPM''
         (\<lambda>y. Scatter xb (map (div_int 1000) y) (d2 @ '' RPM x1000'') ''lines'' cb (Some ''dot''))"
    by blast
  have m: "map_traces (map_fig p) \<noteq> [] \<longleftrightarrow> has_xy tel_a \<and> has_xy tel_b"
    using render_panels_map_fig [OF p assms(2,3)] by (rule map_traces_track_map)
  have l: "load_lap_telemetry ses lap_a = Inr tel_a \<and> load_lap_telemetry ses lap_b = Inr tel_b \<longrightarrow>
        render_pass ses team_color delta d1 d2 show_delta lap_a lap_b = Inr p"
    using p by (simp add: render_pass_loaded)
  have "\<exists>p xa xb. x_axis ta = Inr xa \<and> x_axis tb = Inr xb \<and>
     render_panels ses team_color delta d1 d2 show_delta tel_a tel_b = Inr p \<and>
     (load_lap_telemetry ses lap_a = Inr tel_a \<and> load_lap_telemetry ses lap_b = Inr tel_b \<longrightarrow>
        render_pass ses team_color delta d1 d2 show_delta lap_a lap_b = Inr p) \<and>
     traces (fig p) =
       col_traces ta ''Speed'' (\<lambda>y. Scatter xa y d1 ''lines'' ca None) @
       col_traces tb ''Speed'' (\<lambda>y. Scatter xb y d2 ''lines'' cb None) \<and>
     traces (fig2 p) =
       col_traces ta ''Throttle'' (\<lambda>y. Scatter xa y (d1 @ '' throttle'') ''lines'' ca None) @
       col_traces ta ''Brake''
         (\<lambda>y. Scatter xa (map (mul_int 100) y) (d1 @ '' brake%'') ''lines'' ca (Some ''dash'')) @
       col_traces tb ''Throttle'' (\<lambda>y. Scatter xb y (d2 @ '' throttle'') ''lines'' cb None) @
       col_traces tb ''Brake''
         (\<lambda>y. Scatter xb (map (mul_int 100) y) (d2 @ '' brake%'') ''lines'' cb (Some ''dash'')) \<and>
     traces (fig3 p) =
       col_traces ta ''nGear'' (\<lambda>y. Scatter xa y (d1 @ '' gear'') ''lines'' ca None) @
       col_traces tb ''nGear'' (\<lambda>y. Scatter xb y (d2 @ '' gear'') ''lines'' cb None) @
       col_traces ta ''RPM''
         (\<lambda>y. Scatter xa (map (div_int 1000) y) (d1 @ '' RPM x1000'') ''lines'' ca (Some ''dot'')) @
       col_traces tb ''RPM''
         (\<lambda>y. Scatter xb (map (div_int 1000) y) (d2 @ '' RPM x1000'') ''lines'' cb (Some ''dot'')) \<and>
     (map_traces (map_fig p) \<noteq> [] \<longleftrightarrow> has_xy tel_a \<and> has_xy tel_b)"
    using x p l t m by (intro exI [of _ p] exI [of _ xa] exI [of _ xb] conjI)
  moreover have "\<forall>t c mk. (col_traces t c mk \<noteq> [] \<longleftrightarrow> has_col t c) \<and>
      (\<forall>y. getitem t c = Inr y \<longrightarrow> col_traces t c mk = [mk y])"
    by (simp add: col_traces_has_col col_traces_getitem)
  ultimately show ?thesis by (rule conjI)
qed



text \<open>
  C7. A render pass on two loaded frames fails only when asking the session for the laps
  of one of the two drivers raises, and then with that exception; a channel column that
  is missing never makes it fail. When the two team lookups return, the pass returns its
  four panels. Each figure holds, in the order of the code, one trace for each channel
  column that its side's frame has and none for a column that is missing; the map panel
  has traces only when both loaded frames have their position columns. A render pass
  that starts from two laps returns the same panels once both telemetry loads have
  succeeded.
\<close>

theorem render_tolerates_missing_columns:
  assumes "align show_delta delta tel_a tel_b = (ta, tb)"
  shows "(\<forall>e. render_panels ses team_color delta d1 d2 show_delta tel_a tel_b = Inl e \<longrightarrow>
            pick_driver ses d1 = Inl e \<or> pick_driver ses d2 = Inl e) \<and>
         (driver_team ses d1 = Inr team_a \<longrightarrow> driver_team ses d2 = Inr team_b \<longrightarrow>
          ca = color_a team_color team_a \<longrightarrow> cb = color_b team_color team_b \<longrightarrow>
            (\<exists>p xa xb. x_axis ta = Inr xa \<and> x_axis tb = Inr xb \<and>
           render_panels ses team_color delta d1 d2 show_delta tel_a tel_b = Inr p \<and>
           (load_lap_telemetry ses lap_a = Inr tel_a \<and> load_lap_telemetry ses lap_b = Inr tel_b \<longrightarrow>
              render_pass ses team_color delta d1 d2 show_delta lap_a lap_b = Inr p) \<and>
           traces (fig p) =
             col_traces ta ''Speed'' (\<lambda>y. Scatter xa y d1 ''lines'' ca None) @
             col_traces tb ''Speed'' (\<lambda>y. Scatter xb y d2 ''lines'' cb None) \<and>
           traces (fig2 p) =
             col_traces ta ''Throttle'' (\<lambda>y. Scatter xa y (d1 @ '' throttle'') ''lines'' ca None) @
             col_traces ta ''Brake''
               (\<lambda>y. Scatter xa (map (mul_int 100) y) (d1 @ '' brake%'') ''lines'' ca (Some ''dash'')) @
             col_traces tb ''Throttle'' (\<lambda>y. Scatter xb y (d2 @ '' throttle'') ''lines'' cb None) @
             col_traces tb ''Brake''
               (\<lambda>y. Scatter xb (map (mul_int 100) y) (d2 @ '' brake%'') ''lines'' cb (Some ''dash'')) \<and>
           traces (fig3 p) =
             col_traces ta ''nGear'' (\<lambda>y. Scatter xa y (d1 @ '' gear'') ''lines'' ca None) @
             col_traces tb ''nGear'' (\<lambda>y. Scatter xb y (d2 @ '' gear'') ''lines'' cb None) @
             col_traces ta ''RPM''
               (\<lambda>y. Scatter xa (map (div_int 1000) y) (d1 @ '' RPM x1000'') ''lines'' ca (Some ''dot'')) @
             col_traces tb ''RPM''
               (\<lambda>y. Scatter xb (map (div_int 1000) y) (d2 @ '' RPM x1000'') ''lines'' cb (Some ''dot'')) \<and>
           (map_traces (map_fig p) \<noteq> [] \<longleftrightarrow> has_xy tel_a \<and> has_xy tel_b)) \<and>
         (\<forall>t c mk. (col_traces t c mk \<noteq> [] \<longleftrightarrow> has_col t c) \<and>
            (\<forall>y. getitem t c = Inr y \<longrightarrow> col_traces t c mk = [mk y])))"
proof (rule conjI)
  show "\<forall>e. render_panels ses team_color delta d1 d2 show_delta tel_a tel_b = Inl e \<longrightarrow>
            pick_driver ses d1 = Inl e \<or> pick_driver ses d2 = Inl e"
  proof (intro allI impI)
  fix e
  assume r: "render_panels ses team_color delta d1 d2 show_delta tel_a tel_b = Inl e"
  obtain xa xb where x: "x_axis ta = Inr xa" "x_axis tb = Inr xb"
    using x_axis_total by blast
  show "pick_driver ses d1 = Inl e \<or> pick_driver ses d2 = Inl e"
  proof (cases "driver_team ses d1")
    case (Inl e1)
    with r have "e1 = e"
      by (simp add: render_panels_def assms x)
    with Inl show ?thesis
      by (simp add: driver_team_Inl)
  next
    case a: (Inr team_a)
    show ?thesis
    proof (cases "driver_team ses d2")
      case (Inl e2)
      with r a have "e2 = e"
        by (simp add: render_panels_def assms x)
      with Inl show ?thesis
        by (simp add: driver_team_Inl)
    next
      case b: (Inr team_b)
      have "\<exists>p. render_panels ses team_color delta d1 d2 show_delta tel_a tel_b = Inr p"
        using render_panels_figs [where team_color = team_color, OF assms x a b refl refl]
        by blast
      with r show ?thesis
        by simp
    qed
  qed
  qed
next
  show "driver_team ses d1 = Inr team_a \<longrightarrow> driver_team ses d2 = Inr team_b \<longrightarrow>
          ca = color_a team_color team_a \<longrightarrow> cb = color_b team_color team_b \<longrightarrow>
            (\<exists>p xa xb. x_axis ta = Inr xa \<and> x_axis tb = Inr xb \<and>
           render_panels ses team_color delta d1 d2 show_delta tel_a tel_b = Inr p \<and>
           (load_lap_telemetry ses lap_a = Inr tel_a \<and> load_lap_telemetry ses lap_b = Inr tel_b \<longrightarrow>
              render_pass ses team_color delta d1 d2 show_delta lap_a lap_b = Inr p) \<and>
           traces (fig p) =
             col_traces ta ''Speed'' (\<lambda>y. Scatter xa y d1 ''lines'' ca None) @
             col_traces tb ''Speed'' (\<lambda>y. Scatter xb y d2 ''lines'' cb None) \<and>
           traces (fig2 p) =
             col_traces ta ''Throttle'' (\<lambda>y. Scatter xa y (d1 @ '' throttle'') ''lines'' ca None) @
             col_traces ta ''Brake''
               (\<lambda>y. Scatter xa (map (mul_int 100) y) (d1 @ '' brake%'') ''lines'' ca (Some ''dash'')) @
             col_traces tb ''Throttle'' (\<lambda>y. Scatter xb y (d2 @ '' throttle'') ''lines'' cb None) @
             col_traces tb ''Brake''
               (\<lambda>y. Scatter xb (map (mul_int 100) y) (d2 @ '' brake%'') ''lines'' cb (Some ''dash'')) \<and>
           traces (fig3 p) =
             col_traces ta ''nGear'' (\<lambda>y. Scatter xa y (d1 @ '' gear'') ''lines'' ca None) @
             col_traces tb ''nGear'' (\<lambda>y. Scatter xb y (d2 @ '' gear'') ''lines'' cb None) @
             col_traces ta ''RPM''
               (\<lambda>y. Scatter xa (map (div_int 1000) y) (d1 @ '' RPM x1000'') ''lines'' ca (Some ''dot'')) @
             col_traces tb ''RPM''
               (\<lambda>y. Scatter xb (map (div_int 1000) y) (d2 @ '' RPM x1000'') ''lines'' cb (Some ''dot'')) \<and>
           (map_traces (map_fig p) \<noteq> [] \<longleftrightarrow> has_xy tel_a \<and> has_xy tel_b)) \<and>
         (\<forall>t c mk. (col_traces t c mk \<noteq> [] \<longleftrightarrow> has_col t c) \<and>
            (\<forall>y. getitem t c = Inr y \<longrightarrow> col_traces t c mk = [mk y]))"
  proof (intro impI)
  assume "driver_team ses d1 = Inr team_a" "driver_team ses d2 = Inr team_b"
    "ca = color_a team_color team_a" "cb = color_b team_color team_b"
  from render_panels_returns [OF assms this]
  show "(\<exists>p xa xb. x_axis ta = Inr xa \<and> x_axis tb = Inr xb \<and>
     render_panels ses team_color delta d1 d2 show_delta tel_a tel_b = Inr p \<and>
     (load_lap_telemetry ses lap_a = Inr tel_a \<and> load_lap_telemetry ses lap_b = Inr tel_b \<longrightarrow>
        render_pass ses team_color delta d1 d2 show_delta lap_a lap_b = Inr p) \<and>
     traces (fig p) =
       col_traces ta ''Speed'' (\<lambda>y. Scatter xa y d1 ''lines'' ca None) @
       col_traces tb ''Speed'' (\<lambda>y. Scatter xb y d2 ''lines'' cb None) \<and>
     traces (fig2 p) =
       col_traces ta ''Throttle'' (\<lambda>y. Scatter xa y (d1 @ '' throttle'') ''lines'' ca None) @
       col_traces ta ''Brake''
         (\<lambda>y. Scatter xa (map (mul_int 100) y) (d1 @ '' brake%'') ''lines'' ca (Some ''dash'')) @
       col_traces tb ''Throttle'' (\<lambda>y. Scatter xb y (d2 @ '' throttle'') ''lines'' cb None) @
       col_traces tb ''Brake''
         (\<lambda>y. Scatter xb (map (mul_int 100) y) (d2 @ '' brake%'') ''lines'' cb (Some ''dash'')) \<and>
     traces (fig3 p) =
       col_traces ta ''nGear'' (\<lambda>y. Scatter xa y (d1 @ '' gear'') ''lines'' ca None) @
       col_traces tb ''nGear'' (\<lambda>y. Scatter xb y (d2 @ '' gear'') ''lines'' cb None) @
       col_traces ta ''RPM''
         (\<lambda>y. Scatter xa (map (div_int 1000) y) (d1 @ '' RPM x1000'') ''lines'' ca (Some ''dot'')) @
       col_traces tb ''RPM''
         (\<lambda>y. Scatter xb (map (div_int 1000) y) (d2 @ '' RPM x1000'') ''lines'' cb (Some ''dot'')) \<and>
     (map_traces (map_fig p) \<noteq> [] \<longleftrightarrow> has_xy tel_a \<and> has_xy tel_b)) \<and>
   (\<forall>t c mk. (col_traces t c mk \<noteq> [] \<longleftrightarrow> has_col t c) \<and>
      (\<forall>y. getitem t c = Inr y \<longrightarrow> col_traces t c mk = [mk y]))"
    .
  qed
qed

theorem render_tolerates_missing_columns_witness:
  "align True (Inl ProviderError) loaded_example_frame no_distance_frame =
     (loaded_example_frame, no_distance_frame) \<and>
   (\<exists>p. render_panels example_session example_team_color (Inl ProviderError) ''44'' ''16'' True
           loaded_example_frame no_distance_frame = Inr p \<and>
        length (traces (fig p)) = 2 \<and> length (traces (fig2 p)) = 1 \<and>
        length (traces (fig3 p)) = 1 \<and> map_traces (map_fig p) = [])"
proof -
  have al: "align True (Inl ProviderError) loaded_example_frame no_distance_frame =
     (loaded_example_frame, no_distance_frame)"
    by (simp add: align_def)
  have n: "\<not> has_xy no_distance_frame"
    by (simp add: has_xy_def has_col_def no_distance_frame_def)
  from render_tolerates_missing_columns
    [OF al, THEN conjunct2, rule_format, OF example_teams example_colors]
  obtain p xa xb where
    p: "render_panels example_session example_team_color (Inl ProviderError) ''44'' ''16'' True
           loaded_example_frame no_distance_frame = Inr p"
    and t1: "traces (fig p) =
       col_traces loaded_example_frame ''Speed'' (\<lambda>y. Scatter xa y ''44'' ''lines'' ''#00d2be'' None) @
       col_traces no_distance_frame ''Speed'' (\<lambda>y. Scatter xb y ''16'' ''lines'' ''#ff7f0e'' None)"
    and t2: "traces (fig2 p) =
       col_traces loaded_example_frame ''Throttle''
         (\<lambda>y. Scatter xa y (''44'' @ '' throttle'') ''lines'' ''#00d2be'' None) @
       col_traces loaded_example_frame ''Brake''
         (\<lambda>y. Scatter xa (map (mul_int 100) y) (''44'' @ '' brake%'') ''lines'' ''#00d2be'' (Some ''dash'')) @
       col_traces no_distance_frame ''Throttle''
         (\<lambda>y. Scatter xb y (''16'' @ '' throttle'') ''lines'' ''#ff7f0e'' None) @
       col_traces no_distance_frame ''Brake''
         (\<lambda>y. Scatter xb (map (mul_int 100) y) (''16'' @ '' brake%'') ''lines'' ''#ff7f0e'' (Some ''dash''))"
    and t3: "traces (fig3 p) =
       col_traces loaded_example_frame ''nGear''
         (\<lambda>y. Scatter xa y (''44'' @ '' gear'') ''lines'' ''#00d2be'' None) @
       col_traces no_distance_frame ''nGear''
         (\<lambda>y. Scatter xb y (''16'' @ '' gear'') ''lines'' ''#ff7f0e'' None) @
       col_traces loaded_example_frame ''RPM''
         (\<lambda>y. Scatter xa (map (div_int 1000) y) (''44'' @ '' RPM x1000'') ''lines'' ''#00d2be'' (Some ''dot'')) @
       col_traces no_distance_frame ''RPM''
         (\<lambda>y. Scatter xb (map (div_int 1000) y) (''16'' @ '' RPM x1000'') ''lines'' ''#ff7f0e'' (Some ''dot''))"
    and m: "map_traces (map_fig p) \<noteq> [] \<longleftrightarrow> has_xy loaded_example_frame \<and> has_xy no_distance_frame"
    by blast
  have "length (traces (fig p)) = 2"
    unfolding t1 by (simp add: col_traces_def loaded_example_frame_def no_distance_frame_def)
  moreover have "length (traces (fig2 p)) = 1"
    unfolding t2 by (simp add: col_traces_def loaded_example_frame_def no_distance_frame_def)
  moreover have "length (traces (fig3 p)) = 1"
    unfolding t3 by (simp add: col_traces_def loaded_example_frame_def no_distance_frame_def)
  moreover have "map_traces (map_fig p) = []"
    using m n by simp
  ultimately show ?thesis using al p by blast
qed

text \<open>
  C9, as stated, fails in its parenthesis: a brake channel that holds a percentage is
  plotted times 100 as well, here 10000.
\<close>

theorem brake_percent_trace_counterexample:
  "getitem percent_brake_frame ''Brake'' = Inr [CInt 100] \<and>
   x_axis percent_brake_frame = Inr (XIndex [0]) \<and>
   throttle_brake_fig ''44'' ''16'' ''#00d2be'' ''#ff7f0e'' percent_brake_frame percent_brake_frame
       (XIndex [0]) (XIndex [0]) =
     Inr \<lparr>traces =
            [Scatter (XIndex [0]) [CInt 10000] ''44 brake%'' ''lines'' ''#00d2be'' (Some ''dash''),
             Scatter (XIndex [0]) [CInt 10000] ''16 brake%'' ''lines'' ''#ff7f0e'' (Some ''dash'')],
          xaxis_title = ''Distance (m)'', yaxis_title = ''Input (%)'', scaleanchor = None\<rparr> \<and>
   CInt 10000 \<noteq> CInt 0 \<and> CInt 10000 \<noteq> CInt 100"
  by (simp add: throttle_brake_fig_def add_if_col_def x_axis_def has_col_def getitem_def
      percent_brake_frame_def)



text \<open>
  C9, amended. Each brake trace of the throttle and brake panel is the side's brake
  column times 100, drawn dashed, and these are the only traces of the panel with a dash
  style; each RPM trace of the gear and RPM panel is the side's RPM column divided by
  1000, drawn dotted, and these are the only traces of that panel with a dash style. A
  brake column of booleans or of the integers 0 and 1 is plotted as 0 and 100. Division
  is exact: an integer n becomes the rational n / 1000.
\<close>

theorem brake_and_rpm_traces:
  assumes "align show_delta delta tel_a tel_b = (ta, tb)"
    and "x_axis ta = Inr xa" and "x_axis tb = Inr xb"
    and "driver_team ses d1 = Inr team_a" and "driver_team ses d2 = Inr team_b"
    and "ca = color_a team_color team_a"
    and "cb = color_b team_color team_b"
    and "render_panels ses team_color delta d1 d2 show_delta tel_a tel_b = Inr p"
  shows "(\<forall>b. getitem ta ''Brake'' = Inr b \<longrightarrow>
            Scatter xa (map (mul_int 100) b) (d1 @ '' brake%'') ''lines'' ca (Some ''dash'')
              \<in> set (traces (fig2 p))) \<and>
         (\<forall>b. getitem tb ''Brake'' = Inr b \<longrightarrow>
            Scatter xb (map (mul_int 100) b) (d2 @ '' brake%'') ''lines'' cb (Some ''dash'')
              \<in> set (traces (fig2 p))) \<and>
         (\<forall>r. getitem ta ''RPM'' = Inr r \<longrightarrow>
            Scatter xa (map (div_int 1000) r) (d1 @ '' RPM x1000'') ''lines'' ca (Some ''dot'')
              \<in> set (traces (fig3 p))) \<and>
         (\<forall>r. getitem tb ''RPM'' = Inr r \<longrightarrow>
            Scatter xb (map (div_int 1000) r) (d2 @ '' RPM x1000'') ''lines'' cb (Some ''dot'')
              \<in> set (traces (fig3 p))) \<and>
         (\<forall>t \<in> set (traces (fig2 p)). tdash t \<noteq> None \<longrightarrow>
            tdash t = Some ''dash'' \<and>
            (\<exists>b. (getitem ta ''Brake'' = Inr b \<or> getitem tb ''Brake'' = Inr b) \<and>
                 ty t = map (mul_int 100) b)) \<and>
         (\<forall>t \<in> set (traces (fig3 p)). tdash t \<noteq> None \<longrightarrow>
            tdash t = Some ''dot'' \<and>
            (\<exists>r. (getitem ta ''RPM'' = Inr r \<or> getitem tb ''RPM'' = Inr r) \<and>
                 ty t = map (div_int 1000) r)) \<and>
         (\<forall>b. (\<forall>c \<in> set b. is_bool_cell c \<or> c = CInt 0 \<or> c = CInt 1) \<longrightarrow>
            (\<forall>v \<in> set (map (mul_int 100) b). v = CInt 0 \<or> v = CInt 100)) \<and>
         (\<forall>n. div_int 1000 (CInt n) = CNum (of_int n / 1000)) \<and>
         (\<forall>q. div_int 1000 (CNum q) = CNum (q / 1000))"
proof -
  from render_panels_traces [OF assms(1-7)] assms(8)
  have t2: "traces (fig2 p) =
       col_traces ta ''Throttle'' (\<lambda>y. Scatter xa y (d1 @ '' throttle'') ''lines'' ca None) @
       col_traces ta ''Brake''
         (\<lambda>y. Scatter xa (map (mul_int 100) y) (d1 @ '' brake%'') ''lines'' ca (Some ''dash'')) @
       col_traces tb ''Throttle'' (\<lambda>y. Scatter xb y (d2 @ '' throttle'') ''lines'' cb None) @
       col_traces tb ''Brake''
         (\<lambda>y. Scatter xb (map (mul_int 100) y) (d2 @ '' brake%'') ''lines'' cb (Some ''dash''))"
    and t3: "traces (fig3 p) =
       col_traces ta ''nGear'' (\<lambda>y. Scatter xa y (d1 @ '' gear'') ''lines'' ca None) @
       col_traces tb ''nGear'' (\<lambda>y. Scatter xb y (d2 @ '' gear'') ''lines'' cb None) @
       col_traces ta ''RPM''
         (\<lambda>y. Scatter xa (map (div_int 1000) y) (d1 @ '' RPM x1000'') ''lines'' ca (Some ''dot'')) @
       col_traces tb ''RPM''
         (\<lambda>y. Scatter xb (map (div_int 1000) y) (d2 @ '' RPM x1000'') ''lines'' cb (Some ''dot''))"
    by auto
  have a: "\<forall>b. getitem ta ''Brake'' = Inr b \<longrightarrow>
            Scatter xa (map (mul_int 100) b) (d1 @ '' brake%'') ''lines'' ca (Some ''dash'')
              \<in> set (traces (fig2 p))"
    unfolding t2 by (simp add: col_traces_getitem)
  have b: "\<forall>b. getitem tb ''Brake'' = Inr b \<longrightarrow>
            Scatter xb (map (mul_int 100) b) (d2 @ '' brake%'') ''lines'' cb (Some ''dash'')
              \<in> set (traces (fig2 p))"
    unfolding t2 by (simp add: col_traces_getitem)
  have c: "\<forall>r. getitem ta ''RPM'' = Inr r \<longrightarrow>
            Scatter xa (map (div_int 1000) r) (d1 @ '' RPM x1000'') ''lines'' ca (Some ''dot'')
              \<in> set (traces (fig3 p))"
    unfolding t3 by (simp add: col_traces_getitem)
  have d: "\<forall>r. getitem tb ''RPM'' = Inr r \<longrightarrow>
            Scatter xb (map (div_int 1000) r) (d2 @ '' RPM x1000'') ''lines'' cb (Some ''dot'')
              \<in> set (traces (fig3 p))"
    unfolding t3 by (simp add: col_traces_getitem)
  have e: "\<forall>t \<in> set (traces (fig2 p)). tdash t \<noteq> None \<longrightarrow>
            tdash t = Some ''dash'' \<and>
            (\<exists>b. (getitem ta ''Brake'' = Inr b \<or> getitem tb ''Brake'' = Inr b) \<and>
                 ty t = map (mul_int 100) b)"
    unfolding t2
    by (auto dest!: col_traces_mem simp: Scatter_def)
  have f: "\<forall>t \<in> set (traces (fig3 p)). tdash t \<noteq> None \<longrightarrow>
            tdash t = Some ''dot'' \<and>
            (\<exists>r. (getitem ta ''RPM'' = Inr r \<or> getitem tb ''RPM'' = Inr r) \<and>
                 ty t = map (div_int 1000) r)"
    unfolding t3
    by (auto dest!: col_traces_mem simp: Scatter_def)
  have g: "\<forall>b. (\<forall>c \<in> set b. is_bool_cell c \<or> c = CInt 0 \<or> c = CInt 1) \<longrightarrow>
            (\<forall>v \<in> set (map (mul_int 100) b). v = CInt 0 \<or> v = CInt 100)"
    using mul_100_bool_like by auto
  have h: "\<forall>n. div_int 1000 (CInt n) = CNum (of_int n / 1000)"
    "\<forall>q. div_int 1000 (CNum q) = CNum (q / 1000)"
    by simp_all
  from a b c d e f g h show ?thesis by blast
qed

theorem brake_and_rpm_traces_witness:
  "align False (Inl ProviderError) loaded_example_frame loaded_example_frame =
     (loaded_example_frame, loaded_example_frame) \<and>
   x_axis loaded_example_frame = Inr (XValues [CInt 0, CInt 25]) \<and>
   (\<exists>p. render_panels example_session example_team_color (Inl ProviderError) ''44'' ''16'' False
           loaded_example_frame loaded_example_frame = Inr p \<and>
        Scatter (XValues [CInt 0, CInt 25]) [CInt 0, CInt 100] ''44 brake%'' ''lines''
          ''#00d2be'' (Some ''dash'') \<in> set (traces (fig2 p)) \<and>
        Scatter (XValues [CInt 0, CInt 25]) [CNum 11, CNum (21 / 2)] ''16 RPM x1000'' ''lines''
          ''#ff7f0e'' (Some ''dot'') \<in> set (traces (fig3 p)))"
proof -
  have al: "align False (Inl ProviderError) loaded_example_frame loaded_example_frame =
     (loaded_example_frame, loaded_example_frame)"
    by (simp add: align_def)
  have x: "x_axis loaded_example_frame = Inr (XValues [CInt 0, CInt 25])"
    by (simp add: x_axis_def has_col_def getitem_def loaded_example_frame_def)
  have gb: "getitem loaded_example_frame ''Brake'' = Inr [CInt 0, CInt 1]"
    and gr: "getitem loaded_example_frame ''RPM'' = Inr [CInt 11000, CInt 10500]"
    by (simp_all add: getitem_def loaded_example_frame_def)
  obtain p where p: "render_panels example_session example_team_color (Inl ProviderError)
      ''44'' ''16'' False loaded_example_frame loaded_example_frame = Inr p"
    using render_panels_traces [OF al x x example_teams example_colors] by blast
  note k = brake_and_rpm_traces [OF al x x example_teams example_colors p]
  from k gb have "Scatter (XValues [CInt 0, CInt 25]) (map (mul_int 100) [CInt 0, CInt 1])
      (''44'' @ '' brake%'') ''lines'' ''#00d2be'' (Some ''dash'') \<in> set (traces (fig2 p))"
    by blast
  then have 1: "Scatter (XValues [CInt 0, CInt 25]) [CInt 0, CInt 100] ''44 brake%'' ''lines''
          ''#00d2be'' (Some ''dash'') \<in> set (traces (fig2 p))"
    by simp
  from k gr have "Scatter (XValues [CInt 0, CInt 25]) (map (div_int 1000) [CInt 11000, CInt 10500])
      (''16'' @ '' RPM x1000'') ''lines'' ''#ff7f0e'' (Some ''dot'') \<in> set (traces (fig3 p))"
    by blast
  then have 2: "Scatter (XValues [CInt 0, CInt 25]) [CNum 11, CNum (21 / 2)] ''16 RPM x1000'' ''lines''
          ''#ff7f0e'' (Some ''dot'') \<in> set (traces (fig3 p))"
    by simp
  from al x p 1 2 show ?thesis by blast
qed

end
